theory Spec2Isabelle
  imports Main "HOL-Library.Word" "HOL-Library.Sublist"
begin

section \<open>Python values, exceptions and the object store\<close>

text \<open>
  The decoder of \<^verbatim>\<open>serialization.py\<close> is a \<^verbatim>\<open>Handler\<close> object that reads from a byte
  source and builds \<^verbatim>\<open>Element\<close> objects. Objects are mutable and shared (the handle table
  and \<^verbatim>\<open>Reference.obj\<close> point to the very object that is still being filled in), so
  every \<^verbatim>\<open>Element\<close> lives at an address of an explicit store, and a Python variable that
  holds an object holds its address.
\<close>

type_synonym byte = "8 word"
type_synonym addr = nat

text \<open>
  The exceptions the code can raise. \<^verbatim>\<open>Exception\<close> carries the constant part of its
  message (the interpolated part of an f-string is left out); \<^verbatim>\<open>StructError\<close> is
  \<^verbatim>\<open>struct.error\<close>.
\<close>

datatype exc =
    EOFError
  | StructError
  | ValueError
  | AttributeError
  | IndexError
  | KeyError
  | Exception string

text \<open>
  A Python value: \<^verbatim>\<open>None\<close>, a bool, an (unbounded) int, a str, a bytes object, a complex
  number kept as the bytes it was unpacked from (floating point is not interpreted), or
  an object, given by its address.
\<close>

datatype pyval =
    PNone
  | PBool bool
  | PInt int
  | PStr string
  | PBytes "byte list"
  | PComplex "byte list"
  | PObj addr

text \<open>An \<^verbatim>\<open>io.BytesIO\<close>: its buffer and its absolute position.\<close>

record bytesio =
  buf :: "byte list"
  cur :: nat

text \<open>
  One constructor per \<^verbatim>\<open>Element\<close> subclass, its arguments the attributes in the order
  of \<^verbatim>\<open>__init__\<close>:
  \<^verbatim>\<open>BlockData(size, content, io)\<close>, \<^verbatim>\<open>ClassDesc(content)\<close>,
  \<^verbatim>\<open>Enum(description, name)\<close>, \<^verbatim>\<open>Field(code, type, field_name, field_type)\<close>,
  \<^verbatim>\<open>Header(magic, version)\<close>, \<^verbatim>\<open>JavaException(exception)\<close>, \<^verbatim>\<open>LongString(content)\<close>,
  \<^verbatim>\<open>NewArray(new_class_desc, size, type, contents)\<close>, \<^verbatim>\<open>NewClass(class_desc)\<close>,
  \<^verbatim>\<open>NewClassDesc(class_name, serial_version_uid, flags, fields, super_class)\<close>,
  \<^verbatim>\<open>NewObject(class_desc, contents)\<close>, \<^verbatim>\<open>ProxyClassDesc(ifaces, super_class)\<close>,
  \<^verbatim>\<open>Reference(ref, obj)\<close>, \<^verbatim>\<open>String(content)\<close>.
\<close>

datatype element =
    BlockData int "byte list" "bytesio option"
  | BlockDataLong int "byte list" "bytesio option"
  | ClassDesc pyval
  | EndBlockData
  | Enum pyval pyval
  | FieldE int pyval pyval pyval
  | Header int int
  | JavaException pyval
  | LongString string
  | NewArray pyval int pyval "pyval list"
  | NewClass pyval
  | NewClassDesc string int int "pyval list" pyval
  | NewObject pyval "pyval list"
  | Null
  | ProxyClassDesc "pyval list" pyval
  | Reference int pyval
  | String string

datatype pyclass =
    C_BlockData | C_BlockDataLong | C_ClassDesc | C_EndBlockData | C_Enum | C_Field
  | C_Header | C_JavaException | C_LongString | C_NewArray | C_NewClass | C_NewClassDesc
  | C_NewObject | C_Null | C_ProxyClassDesc | C_Reference | C_String | C_other

fun class_of :: "element \<Rightarrow> pyclass" where
  "class_of (BlockData _ _ _) = C_BlockData"
| "class_of (BlockDataLong _ _ _) = C_BlockDataLong"
| "class_of (ClassDesc _) = C_ClassDesc"
| "class_of EndBlockData = C_EndBlockData"
| "class_of (Enum _ _) = C_Enum"
| "class_of (FieldE _ _ _ _) = C_Field"
| "class_of (Header _ _) = C_Header"
| "class_of (JavaException _) = C_JavaException"
| "class_of (LongString _) = C_LongString"
| "class_of (NewArray _ _ _ _) = C_NewArray"
| "class_of (NewClass _) = C_NewClass"
| "class_of (NewClassDesc _ _ _ _ _) = C_NewClassDesc"
| "class_of (NewObject _ _) = C_NewObject"
| "class_of Null = C_Null"
| "class_of (ProxyClassDesc _ _) = C_ProxyClassDesc"
| "class_of (Reference _ _) = C_Reference"
| "class_of (String _) = C_String"

text \<open>The object a value points to, if it is an object of the store.\<close>

definition deref :: "element list \<Rightarrow> pyval \<Rightarrow> element option" where
  "deref H v = (case v of PObj a \<Rightarrow> if a < length H then Some (H ! a) else None | _ \<Rightarrow> None)"

text \<open>\<^verbatim>\<open>v.__class__\<close>, as far as the code compares it: an \<^verbatim>\<open>Element\<close> subclass or another class.\<close>

definition pyclass_of :: "element list \<Rightarrow> pyval \<Rightarrow> pyclass" where
  "pyclass_of H v = (case deref H v of Some e \<Rightarrow> class_of e | None \<Rightarrow> C_other)"

text \<open>Truth value of \<^verbatim>\<open>if v\<close> / \<^verbatim>\<open>not v\<close>; no \<^verbatim>\<open>Element\<close> defines \<^verbatim>\<open>__bool__\<close> or \<^verbatim>\<open>__len__\<close>.\<close>

fun truthy :: "pyval \<Rightarrow> bool" where
  "truthy PNone = False"
| "truthy (PBool b) = b"
| "truthy (PInt i) = (i \<noteq> 0)"
| "truthy (PStr s) = (s \<noteq> [])"
| "truthy (PBytes bs) = (bs \<noteq> [])"
| "truthy (PComplex bs) = True"
| "truthy (PObj a) = True"

text \<open>The attribute \<^verbatim>\<open>content\<close> of an object; the classes without it raise.\<close>

fun attr_content :: "element \<Rightarrow> exc + pyval" where
  "attr_content (BlockData _ c _) = Inr (PBytes c)"
| "attr_content (BlockDataLong _ c _) = Inr (PBytes c)"
| "attr_content (ClassDesc c) = Inr c"
| "attr_content (LongString c) = Inr (PStr c)"
| "attr_content (String c) = Inr (PStr c)"
| "attr_content _ = Inl AttributeError"

section \<open>Constants\<close>

definition STREAM_MAGIC :: int where "STREAM_MAGIC = 0xACED"
definition STREAM_VERSION :: int where "STREAM_VERSION = 5"
definition TC_NULL :: int where "TC_NULL = 0x70"
definition TC_REFERENCE :: int where "TC_REFERENCE = 0x71"
definition TC_CLASSDESC :: int where "TC_CLASSDESC = 0x72"
definition TC_OBJECT :: int where "TC_OBJECT = 0x73"
definition TC_STRING :: int where "TC_STRING = 0x74"
definition TC_ARRAY :: int where "TC_ARRAY = 0x75"
definition TC_CLASS :: int where "TC_CLASS = 0x76"
definition TC_BLOCKDATA :: int where "TC_BLOCKDATA = 0x77"
definition TC_ENDBLOCKDATA :: int where "TC_ENDBLOCKDATA = 0x78"
definition TC_RESET :: int where "TC_RESET = 0x79"
definition TC_BLOCKDATALONG :: int where "TC_BLOCKDATALONG = 0x7A"
definition TC_EXCEPTION :: int where "TC_EXCEPTION = 0x7B"
definition TC_LONGSTRING :: int where "TC_LONGSTRING = 0x7C"
definition TC_PROXYCLASSDESC :: int where "TC_PROXYCLASSDESC = 0x7D"
definition TC_ENUM :: int where "TC_ENUM = 0x7E"
definition BASE_WIRE_HANDLE :: int where "BASE_WIRE_HANDLE = 0x7E0000"

text \<open>
  The dictionaries, keyed as in the source by one-character strings, one-byte bytes
  objects and the characters' code points (\<^verbatim>\<open>ord('B') = 66\<close>, ...).
\<close>

definition PRIMITIVE_TYPES :: "(pyval \<times> string) list" where
  "PRIMITIVE_TYPES =
    [(PStr ''B'', ''byte''), (PStr ''C'', ''char''), (PStr ''D'', ''double''),
     (PStr ''F'', ''float''), (PStr ''I'', ''int''), (PStr ''J'', ''long''),
     (PStr ''S'', ''short''), (PStr ''Z'', ''boolean''),
     (PBytes [0x42], ''byte''), (PBytes [0x43], ''char''), (PBytes [0x44], ''double''),
     (PBytes [0x46], ''float''), (PBytes [0x49], ''int''), (PBytes [0x4A], ''long''),
     (PBytes [0x53], ''short''), (PBytes [0x5A], ''boolean''),
     (PInt 66, ''byte''), (PInt 67, ''char''), (PInt 68, ''double''),
     (PInt 70, ''float''), (PInt 73, ''int''), (PInt 74, ''long''),
     (PInt 83, ''short''), (PInt 90, ''boolean'')]"

definition OBJECT_TYPES :: "(pyval \<times> string) list" where
  "OBJECT_TYPES =
    [(PStr ''['', ''array''), (PStr ''L'', ''object''),
     (PBytes [0x5B], ''array''), (PBytes [0x4C], ''object''),
     (PInt 91, ''array''), (PInt 76, ''object'')]"

text \<open>\<^verbatim>\<open>TYPES = {}; TYPES.update(PRIMITIVE_TYPES); TYPES.update(OBJECT_TYPES)\<close>\<close>

definition TYPES :: "pyval \<rightharpoonup> string" where
  "TYPES = (Map.empty ++ map_of PRIMITIVE_TYPES) ++ map_of OBJECT_TYPES"

section \<open>The struct module and BytesIO\<close>

text \<open>
  The format strings the code passes to \<^verbatim>\<open>struct\<close> all start with \<^verbatim>\<open>>\<close> (big-endian,
  standard sizes); a format is the list of its codes: \<^verbatim>\<open>?\<close>, \<^verbatim>\<open>B\<close>, \<^verbatim>\<open>s\<close>, \<^verbatim>\<open>H\<close>, and
  the upper-case \<^verbatim>\<open>F\<close> and \<^verbatim>\<open>D\<close> of \<^verbatim>\<open>read_float\<close> and \<^verbatim>\<open>read_double\<close>. Up to
  Python 3.13 the last two are no format codes and \<^verbatim>\<open>struct\<close> raises \<^verbatim>\<open>struct.error\<close>;
  from 3.14 on they are the complex formats of 8 and 16 bytes. The flag \<open>cx\<close> says
  which of the two the interpreter is.
\<close>

datatype fmt = F_bool | F_B | F_s | F_H | F_F | F_D

fun code_size :: "bool \<Rightarrow> fmt \<Rightarrow> nat option" where
  "code_size cx F_bool = Some 1"
| "code_size cx F_B = Some 1"
| "code_size cx F_s = Some 1"
| "code_size cx F_H = Some 2"
| "code_size cx F_F = (if cx then Some 8 else None)"
| "code_size cx F_D = (if cx then Some 16 else None)"

fun calcsize :: "bool \<Rightarrow> fmt list \<Rightarrow> nat option" where
  "calcsize cx [] = Some 0"
| "calcsize cx (c # cs) =
     (case code_size cx c of
        None \<Rightarrow> None
      | Some n \<Rightarrow> (case calcsize cx cs of None \<Rightarrow> None | Some m \<Rightarrow> Some (n + m)))"

text \<open>Big-endian unsigned value of a byte string.\<close>

fun be_int :: "byte list \<Rightarrow> int" where
  "be_int [] = 0"
| "be_int (b # bs) = uint b * 256 ^ length bs + be_int bs"

fun unpack_code :: "fmt \<Rightarrow> byte list \<Rightarrow> pyval" where
  "unpack_code F_bool bs = PBool (be_int bs \<noteq> 0)"
| "unpack_code F_B bs = PInt (be_int bs)"
| "unpack_code F_s bs = PBytes bs"
| "unpack_code F_H bs = PInt (be_int bs)"
| "unpack_code F_F bs = PComplex bs"
| "unpack_code F_D bs = PComplex bs"

text \<open>\<^verbatim>\<open>struct.unpack\<close> on a buffer of the format's size: one value per code.\<close>

fun struct_unpack :: "bool \<Rightarrow> fmt list \<Rightarrow> byte list \<Rightarrow> pyval list" where
  "struct_unpack cx [] ba = []"
| "struct_unpack cx (c # cs) ba =
     (case code_size cx c of
        None \<Rightarrow> []
      | Some n \<Rightarrow> unpack_code c (take n ba) # struct_unpack cx cs (drop n ba))"

text \<open>\<^verbatim>\<open>b.read(n)\<close>: the next at most \<open>n\<close> bytes; the position moves by what was read.\<close>

definition bio_read :: "nat \<Rightarrow> bytesio \<Rightarrow> byte list \<times> bytesio" where
  "bio_read n b =
     (let ba = take n (drop (cur b) (buf b)) in (ba, b\<lparr>cur := cur b + length ba\<rparr>))"

text \<open>
  \<^verbatim>\<open>b.seek(n, 1)\<close>: moves the position by \<open>n\<close> (it may pass the end of the buffer, and
  stops at 0) and returns the new absolute position.
\<close>

definition bio_seek_cur :: "int \<Rightarrow> bytesio \<Rightarrow> int \<times> bytesio" where
  "bio_seek_cur n b = (let p = max 0 (int (cur b) + n) in (p, b\<lparr>cur := nat p\<rparr>))"

section \<open>The handler and the result of a call\<close>

text \<open>
  The attributes of \<^verbatim>\<open>Handler\<close> (\<open>endp\<close> is \<^verbatim>\<open>self.end\<close>), together with the two things
  every call threads along: the object store \<open>heap\<close> and the interpreter's \<^verbatim>\<open>struct\<close>
  flavour \<open>struct_complex\<close>. \<^verbatim>\<open>Handler.io\<close> is taken to be a \<^verbatim>\<open>BytesIO\<close>.
\<close>

record handler =
  io :: bytesio
  pos :: int
  endp :: int
  block_mode :: bool
  block_data :: pyval
  references :: "pyval list"
  header :: pyval
  heap :: "element list"
  struct_complex :: bool

text \<open>
  A call returns a value and the handler it leaves, or raises, or does not come back
  within the nesting depth it was given (see \<open>decode_object\<close>). An exception leaves
  the handler as it is at the \<^verbatim>\<open>raise\<close>: what the call has read and assigned until then
  stays read and assigned.
\<close>

datatype 'a result = Return 'a handler | Raise exc handler | OutOfFuel

type_synonym 'a M = "handler \<Rightarrow> 'a result"

definition return :: "'a \<Rightarrow> 'a M" where
  "return v = (\<lambda>h. Return v h)"

definition raise :: "exc \<Rightarrow> 'a M" where
  "raise e = (\<lambda>h. Raise e h)"

definition bind :: "'a M \<Rightarrow> ('a \<Rightarrow> 'b M) \<Rightarrow> 'b M" where
  "bind m f = (\<lambda>h. case m h of Return v h' \<Rightarrow> f v h' | Raise e h' \<Rightarrow> Raise e h' | OutOfFuel \<Rightarrow> OutOfFuel)"

definition gets :: "(handler \<Rightarrow> 'a) \<Rightarrow> 'a M" where
  "gets f = (\<lambda>h. Return (f h) h)"

definition modify :: "(handler \<Rightarrow> handler) \<Rightarrow> unit M" where
  "modify f = (\<lambda>h. Return () (f h))"

text \<open>\<^verbatim>\<open>X()\<close>: a new object, at the next free address.\<close>

definition alloc :: "element \<Rightarrow> addr M" where
  "alloc e = (\<lambda>h. Return (length (heap h)) (h\<lparr>heap := heap h @ [e]\<rparr>))"

text \<open>
  An assignment \<^verbatim>\<open>self.x = v\<close>: the object at \<open>self\<close> is written with \<open>x\<close> replaced. The
  other attributes are the ones the running \<^verbatim>\<open>decode\<close> has assigned so far; no other code
  assigns to an attribute of an \<^verbatim>\<open>Element\<close>.
\<close>

definition put :: "addr \<Rightarrow> element \<Rightarrow> unit M" where
  "put self e = modify (\<lambda>h. h\<lparr>heap := (heap h)[self := e]\<rparr>)"

section \<open>Handler: block-data mode and primitive reads\<close>

definition set_block_data_mode :: "bool \<Rightarrow> pyval M" where
  "set_block_data_mode newmode = (\<lambda>h.
     if newmode = block_mode h then Return PNone h
     else if newmode then Return (PBool (\<not> newmode)) (h\<lparr>pos := 0, endp := 0, block_mode := newmode\<rparr>)
     else if pos h < endp h then Raise (Exception ''unread block data'') h
     else Return (PBool (\<not> newmode)) (h\<lparr>block_mode := newmode\<rparr>))"

definition get_unread :: "handler \<Rightarrow> int" where
  "get_unread h = endp h - pos h"

text \<open>
  \<^verbatim>\<open>while n > 0: skip = self.io.seek(n, 1); if skip == 0: raise EOFError; n -= skip\<close>.
  \<^verbatim>\<open>seek\<close> returns the new absolute position, which is what the loop subtracts.
\<close>

function skip :: "int \<Rightarrow> unit M" where
  "skip n h =
     (if n > 0 then
        (case bio_seek_cur n (io h) of (sk, io') \<Rightarrow>
           if sk = 0 then Raise EOFError (h\<lparr>io := io'\<rparr>) else skip (n - sk) (h\<lparr>io := io'\<rparr>))
      else Return () h)"
  by pat_completeness auto
termination
  by (relation "measure (\<lambda>(n, h). nat n)") (auto simp: bio_seek_cur_def Let_def)

text \<open>
  \<^verbatim>\<open>refill\<close>; \<open>dec\<close> is \<^verbatim>\<open>decode_object\<close>, which is defined below and calls back into the
  reads.
\<close>

definition refill :: "pyval M \<Rightarrow> unit M" where
  "refill dec =
     bind (gets block_mode) (\<lambda>bm.
       if \<not> bm then raise (Exception ''Refilling disabled'')
       else
         bind (gets get_unread) (\<lambda>u.
         bind (skip u) (\<lambda>_.
         bind (set_block_data_mode False) (\<lambda>_.
         bind dec (\<lambda>bd.
         bind (set_block_data_mode True) (\<lambda>_.
         bind (gets heap) (\<lambda>H.
           case deref H bd of
             Some (BlockData sz _ _) \<Rightarrow> modify (\<lambda>h. h\<lparr>block_data := bd, pos := 0, endp := sz\<rparr>)
           | Some (BlockDataLong sz _ _) \<Rightarrow> modify (\<lambda>h. h\<lparr>block_data := bd, pos := 0, endp := sz\<rparr>)
           | _ \<Rightarrow> raise (Exception ''Invalid block data''))))))))"

text \<open>\<^verbatim>\<open>self.block_data.io.read(ln)\<close>: the read moves the position of the frame's \<^verbatim>\<open>BytesIO\<close>.\<close>

definition block_read :: "nat \<Rightarrow> byte list M" where
  "block_read ln = (\<lambda>h.
     case block_data h of
       PObj a \<Rightarrow>
         (case deref (heap h) (PObj a) of
            Some (BlockData sz c (Some b)) \<Rightarrow>
              (case bio_read ln b of (ba, b') \<Rightarrow>
                 Return ba (h\<lparr>heap := (heap h)[a := BlockData sz c (Some b')]\<rparr>))
          | Some (BlockDataLong sz c (Some b)) \<Rightarrow>
              (case bio_read ln b of (ba, b') \<Rightarrow>
                 Return ba (h\<lparr>heap := (heap h)[a := BlockDataLong sz c (Some b')]\<rparr>))
          | _ \<Rightarrow> Raise AttributeError h)
     | _ \<Rightarrow> Raise AttributeError h)"

text \<open>\<^verbatim>\<open>self.io.read(ln)\<close>\<close>

definition stream_read :: "nat \<Rightarrow> byte list M" where
  "stream_read ln = (\<lambda>h. case bio_read ln (io h) of (ba, io') \<Rightarrow> Return ba (h\<lparr>io := io'\<rparr>))"

definition read_struct :: "pyval M \<Rightarrow> fmt list \<Rightarrow> pyval list M" where
  "read_struct dec unpack =
     bind (gets struct_complex) (\<lambda>cx.
       case calcsize cx unpack of
         None \<Rightarrow> raise StructError
       | Some ln \<Rightarrow>
           bind (gets (\<lambda>h. block_mode h \<and> pos h = endp h)) (\<lambda>at_end.
           bind (if at_end then refill dec else return ()) (\<lambda>_.
           bind (gets block_mode) (\<lambda>bm.
           bind (if bm then block_read ln else stream_read ln) (\<lambda>ba.
             if length ba \<noteq> ln then raise EOFError
             else
               bind (modify (\<lambda>h. h\<lparr>pos := pos h + int ln\<rparr>)) (\<lambda>_.
               return (struct_unpack cx unpack ba)))))))"

text \<open>\<^verbatim>\<open>(value,) = t\<close>: the tuple must have exactly one component.\<close>

fun unpack1 :: "pyval list \<Rightarrow> pyval M" where
  "unpack1 [v] = return v"
| "unpack1 _ = raise ValueError"

definition read_boolean :: "pyval M \<Rightarrow> pyval M" where
  "read_boolean dec = bind (read_struct dec [F_bool]) unpack1"

text \<open>The readers of integers return the Python int itself.\<close>

definition read_byte :: "pyval M \<Rightarrow> int M" where
  "read_byte dec =
     bind (bind (read_struct dec [F_B]) unpack1) (\<lambda>value.
       case value of PInt v \<Rightarrow> return v | _ \<Rightarrow> raise ValueError)"

definition read_char :: "pyval M \<Rightarrow> pyval M" where
  "read_char dec = bind (read_struct dec [F_s, F_s]) unpack1"

definition read_double :: "pyval M \<Rightarrow> pyval M" where
  "read_double dec = bind (read_struct dec [F_D]) unpack1"

definition read_float :: "pyval M \<Rightarrow> pyval M" where
  "read_float dec = bind (read_struct dec [F_F]) unpack1"

definition read_short :: "pyval M \<Rightarrow> int M" where
  "read_short dec =
     bind (read_byte dec) (\<lambda>v1.
     bind (read_byte dec) (\<lambda>v2.
     return (push_bit 8 v1 + v2)))"

definition read_int :: "pyval M \<Rightarrow> int M" where
  "read_int dec =
     bind (read_short dec) (\<lambda>v1.
     bind (read_short dec) (\<lambda>v2.
     return (push_bit 16 v1 + v2)))"

definition read_long :: "pyval M \<Rightarrow> int M" where
  "read_long dec =
     bind (read_int dec) (\<lambda>v1.
     bind (read_int dec) (\<lambda>v2.
     return (push_bit 32 v1 + v2)))"

definition read_primitive :: "pyval M \<Rightarrow> pyval \<Rightarrow> pyval M" where
  "read_primitive dec primitive_type =
     (if primitive_type = PStr ''byte'' then bind (read_byte dec) (\<lambda>v. return (PInt v))
      else if primitive_type = PStr ''char'' then read_char dec
      else if primitive_type = PStr ''double'' then read_double dec
      else if primitive_type = PStr ''float'' then read_float dec
      else if primitive_type = PStr ''int'' then bind (read_int dec) (\<lambda>v. return (PInt v))
      else if primitive_type = PStr ''long'' then bind (read_long dec) (\<lambda>v. return (PInt v))
      else if primitive_type = PStr ''short'' then bind (read_short dec) (\<lambda>v. return (PInt v))
      else if primitive_type = PStr ''boolean'' then read_boolean dec
      else dec)"

definition add_reference :: "pyval \<Rightarrow> unit M" where
  "add_reference reference = modify (\<lambda>h. h\<lparr>references := references h @ [reference]\<rparr>)"

text \<open>
  \<^verbatim>\<open>self.references[reference]\<close>: a Python list index; a negative index counts from the
  end, and an index outside \<open>-len .. len - 1\<close> raises \<^verbatim>\<open>IndexError\<close>.
\<close>

definition get_reference :: "int \<Rightarrow> pyval M" where
  "get_reference reference = (\<lambda>h.
     let n = int (length (references h));
         j = (if reference < 0 then n + reference else reference)
     in if 0 \<le> j \<and> j < n then Return (references h ! nat j) h else Raise IndexError h)"

section \<open>The decoders of the Element classes\<close>

text \<open>\<^verbatim>\<open>if v.__class__ is Reference: v = v.obj\<close>\<close>

definition unref :: "element list \<Rightarrow> pyval \<Rightarrow> pyval" where
  "unref H v = (case deref H v of Some (Reference _ obj) \<Rightarrow> obj | _ \<Rightarrow> v)"

text \<open>\<^verbatim>\<open>v.content\<close>, \<^verbatim>\<open>v.super_class\<close> and \<^verbatim>\<open>v.fields\<close> for a value of any class.\<close>

definition getattr_content :: "pyval \<Rightarrow> pyval M" where
  "getattr_content v =
     bind (gets heap) (\<lambda>H.
       case deref H v of
         None \<Rightarrow> raise AttributeError
       | Some e \<Rightarrow> (case attr_content e of Inl x \<Rightarrow> raise x | Inr c \<Rightarrow> return c))"

definition getattr_super_class :: "pyval \<Rightarrow> pyval M" where
  "getattr_super_class v =
     bind (gets heap) (\<lambda>H.
       case deref H v of
         Some (NewClassDesc _ _ _ _ super_class) \<Rightarrow> return super_class
       | Some (ProxyClassDesc _ super_class) \<Rightarrow> return super_class
       | _ \<Rightarrow> raise AttributeError)"

definition getattr_fields :: "pyval \<Rightarrow> pyval list M" where
  "getattr_fields v =
     bind (gets heap) (\<lambda>H.
       case deref H v of
         Some (NewClassDesc _ _ _ flds _) \<Rightarrow> return flds
       | _ \<Rightarrow> raise AttributeError)"

text \<open>\<^verbatim>\<open>for i in range(ln): contents.append(chr(handler.read_byte()))\<close>\<close>

fun read_chars :: "pyval M \<Rightarrow> nat \<Rightarrow> string \<Rightarrow> string M" where
  "read_chars dec 0 contents = return contents"
| "read_chars dec (Suc i) contents =
     bind (read_byte dec) (\<lambda>b. read_chars dec i (contents @ [char_of b]))"

definition String_decode :: "pyval M \<Rightarrow> addr \<Rightarrow> unit M" where
  "String_decode dec self =
     bind (read_short dec) (\<lambda>ln.
       if ln = 0 then return ()
       else bind (read_chars dec (nat ln) []) (\<lambda>contents. put self (String contents)))"

text \<open>\<^verbatim>\<open>s = String(); s.decode(handler); s.content\<close>, as the descriptors read their names.\<close>

definition inline_String :: "pyval M \<Rightarrow> string M" where
  "inline_String dec =
     bind (alloc (String [])) (\<lambda>s.
     bind (String_decode dec s) (\<lambda>_.
     gets (\<lambda>h. case deref (heap h) (PObj s) of Some (String c) \<Rightarrow> c | _ \<Rightarrow> [])))"

definition LongString_decode :: "pyval M \<Rightarrow> addr \<Rightarrow> unit M" where
  "LongString_decode dec self =
     bind (read_long dec) (\<lambda>ln.
       if ln = 0 then return ()
       else bind (read_chars dec (nat ln) []) (\<lambda>contents. put self (LongString contents)))"

text \<open>
  \<^verbatim>\<open>BlockData.decode\<close>, inherited by \<^verbatim>\<open>BlockDataLong\<close>, whose \<^verbatim>\<open>read_size\<close> is
  \<^verbatim>\<open>read_int\<close> (\<open>long\<close>). The content is read from \<^verbatim>\<open>handler.io\<close> directly.
\<close>

definition BlockData_decode :: "pyval M \<Rightarrow> bool \<Rightarrow> addr \<Rightarrow> unit M" where
  "BlockData_decode dec long self =
     (let mk = (if long then BlockDataLong else BlockData) in
      bind (if long then read_int dec else read_byte dec) (\<lambda>size.
      bind (put self (mk size [] None)) (\<lambda>_.
        if size = 0 then return ()
        else
          bind (stream_read (nat size)) (\<lambda>content.
          bind (put self (mk size content None)) (\<lambda>_.
            if content = [] \<or> int (length content) \<noteq> size then raise EOFError
            else put self (mk size content (Some \<lparr>buf = content, cur = 0\<rparr>)))))))"

definition ClassDesc_decode :: "pyval M \<Rightarrow> addr \<Rightarrow> unit M" where
  "ClassDesc_decode dec self =
     bind dec (\<lambda>type.
     bind (gets heap) (\<lambda>H.
       if pyclass_of H type \<notin> set [C_Null, C_Reference, C_ProxyClassDesc, C_NewClassDesc]
       then raise (Exception ''Invalid type for class desc'')
       else put self (ClassDesc (unref H type))))"

definition Enum_decode :: "pyval M \<Rightarrow> addr \<Rightarrow> unit M" where
  "Enum_decode dec self =
     bind (alloc (ClassDesc PNone)) (\<lambda>description.
     bind (put self (Enum (PObj description) PNone)) (\<lambda>_.
     bind (ClassDesc_decode dec description) (\<lambda>_.
     bind (add_reference (PObj self)) (\<lambda>_.
     bind dec (\<lambda>type.
     bind (gets heap) (\<lambda>H.
       if pyclass_of H type \<notin> set [C_LongString, C_String, C_Reference]
       then raise (Exception ''Invalid type for enum'')
       else
         bind (getattr_content (unref H type)) (\<lambda>name.
         put self (Enum (PObj description) name))))))))"

definition Field_is_valid :: "int \<Rightarrow> bool" where
  "Field_is_valid code = (TYPES (PInt code) \<noteq> None)"

definition Field_is_object :: "int \<Rightarrow> bool" where
  "Field_is_object code = (map_of OBJECT_TYPES (PInt code) \<noteq> None)"

definition Field_is_primitive :: "int \<Rightarrow> bool" where
  "Field_is_primitive code = (map_of PRIMITIVE_TYPES (PInt code) \<noteq> None)"

definition Field_get_primitive_type :: "int \<Rightarrow> string option" where
  "Field_get_primitive_type code = map_of PRIMITIVE_TYPES (PInt code)"

definition Field_decode :: "pyval M \<Rightarrow> addr \<Rightarrow> unit M" where
  "Field_decode dec self =
     bind (read_byte dec) (\<lambda>code.
     bind (put self (FieldE code (PInt 0) PNone PNone)) (\<lambda>_.
       if \<not> Field_is_valid code then raise (Exception ''Invalid type code'')
       else
         (case TYPES (PInt code) of
            None \<Rightarrow> raise KeyError
          | Some ty \<Rightarrow>
              bind (put self (FieldE code (PStr ty) PNone PNone)) (\<lambda>_.
              bind (inline_String dec) (\<lambda>field_name.
              bind (put self (FieldE code (PStr ty) (PStr field_name) PNone)) (\<lambda>_.
                if Field_is_object code then
                  bind dec (\<lambda>type.
                  bind (gets heap) (\<lambda>H.
                    if pyclass_of H type \<notin> set [C_String, C_Reference]
                    then raise (Exception ''Invalid type for field'')
                    else put self (FieldE code (PStr ty) (PStr field_name) (unref H type))))
                else return ()))))))"

text \<open>\<^verbatim>\<open>(self.magic, self.version) = handler.read_struct(">HH")\<close>; nothing is compared.\<close>

definition Header_decode :: "pyval M \<Rightarrow> addr \<Rightarrow> unit M" where
  "Header_decode dec self =
     bind (read_struct dec [F_H, F_H]) (\<lambda>t.
       case t of
         [PInt magic, PInt version] \<Rightarrow> put self (Header magic version)
       | _ \<Rightarrow> raise ValueError)"

definition JavaException_decode :: "pyval M \<Rightarrow> addr \<Rightarrow> unit M" where
  "JavaException_decode dec self =
     bind dec (\<lambda>exception.
     bind (gets heap) (\<lambda>H.
     put self (JavaException (unref H exception))))"

text \<open>The first index of a character in a string, \<^verbatim>\<open>s.index(c)\<close>.\<close>

fun str_index :: "char \<Rightarrow> string \<Rightarrow> nat option" where
  "str_index c [] = None"
| "str_index c (x # xs) =
     (if x = c then Some 0 else (case str_index c xs of None \<Rightarrow> None | Some i \<Rightarrow> Some (Suc i)))"

text \<open>\<^verbatim>\<open>NewArray.array_type\<close>, of the object in \<^verbatim>\<open>self.new_class_desc\<close>.\<close>

definition array_type :: "element list \<Rightarrow> pyval \<Rightarrow> exc + pyval" where
  "array_type H new_class_desc =
     (case deref H new_class_desc of
        Some (NewClassDesc class_name _ _ _ _) \<Rightarrow>
          (case class_name of
             [] \<Rightarrow> Inr (PBool False)
           | c0 # _ \<Rightarrow>
               if map_of OBJECT_TYPES (PStr [c0]) = None
                  \<or> map_of OBJECT_TYPES (PStr [c0]) \<noteq> Some ''array''
               then Inr (PBool False)
               else if length class_name < 2 then Inl IndexError
               else
                 (let decoded_type = class_name ! 1 in
                  case map_of PRIMITIVE_TYPES (PStr [decoded_type]) of
                    Some t \<Rightarrow> Inr (PStr t)
                  | None \<Rightarrow>
                      if decoded_type = CHR ''L'' then
                        (case str_index (CHR '';'') class_name of
                           None \<Rightarrow> Inl ValueError
                         | Some i \<Rightarrow> Inr (PStr (take (i - 2) (drop 2 class_name))))
                      else Inl (Exception ''Invalid array type'')))
      | _ \<Rightarrow> Inr (PBool False))"

text \<open>The element loop of \<^verbatim>\<open>NewArray.decode\<close>.\<close>

fun NewArray_contents :: "pyval M \<Rightarrow> pyval \<Rightarrow> nat \<Rightarrow> pyval list \<Rightarrow> pyval list M" where
  "NewArray_contents dec ty 0 contents = return contents"
| "NewArray_contents dec ty (Suc i) contents =
     bind (read_primitive dec ty) (\<lambda>content.
     bind (gets heap) (\<lambda>H.
     NewArray_contents dec ty i (contents @ [unref H content])))"

definition NewArray_decode :: "pyval M \<Rightarrow> addr \<Rightarrow> unit M" where
  "NewArray_decode dec self =
     bind dec (\<lambda>class_desc.
     bind (gets heap) (\<lambda>H.
       if pyclass_of H class_desc \<notin> set [C_NewClassDesc, C_Reference]
       then raise (Exception ''Invalid type for class desc'')
       else
         (let new_class_desc = unref H class_desc in
          bind (put self (NewArray new_class_desc 0 (PStr []) [])) (\<lambda>_.
          bind (add_reference (PObj self)) (\<lambda>_.
          bind (gets heap) (\<lambda>H1.
            case array_type H1 new_class_desc of
              Inl x \<Rightarrow> raise x
            | Inr ty \<Rightarrow>
                bind (put self (NewArray new_class_desc 0 ty [])) (\<lambda>_.
                bind (read_int dec) (\<lambda>size.
                bind (put self (NewArray new_class_desc size ty [])) (\<lambda>_.
                bind (NewArray_contents dec ty (nat size) []) (\<lambda>contents.
                put self (NewArray new_class_desc size ty contents)))))))))))"

definition NewClass_decode :: "pyval M \<Rightarrow> addr \<Rightarrow> unit M" where
  "NewClass_decode dec self =
     bind (alloc (ClassDesc PNone)) (\<lambda>class_desc.
     bind (put self (NewClass (PObj class_desc))) (\<lambda>_.
     bind (ClassDesc_decode dec class_desc) (\<lambda>_.
     add_reference (PObj self))))"

text \<open>The field loop of \<^verbatim>\<open>NewClassDesc.decode\<close>.\<close>

fun NewClassDesc_fields :: "pyval M \<Rightarrow> nat \<Rightarrow> pyval list \<Rightarrow> pyval list M" where
  "NewClassDesc_fields dec 0 flds = return flds"
| "NewClassDesc_fields dec (Suc i) flds =
     bind (alloc (FieldE 0 (PInt 0) PNone PNone)) (\<lambda>field.
     bind (Field_decode dec field) (\<lambda>_.
     NewClassDesc_fields dec i (flds @ [PObj field])))"

definition NewClassDesc_decode :: "pyval M \<Rightarrow> addr \<Rightarrow> unit M" where
  "NewClassDesc_decode dec self =
     bind (inline_String dec) (\<lambda>class_name.
     bind (put self (NewClassDesc class_name 0 0 [] PNone)) (\<lambda>_.
     bind (read_long dec) (\<lambda>uid.
     bind (put self (NewClassDesc class_name uid 0 [] PNone)) (\<lambda>_.
     bind (add_reference (PObj self)) (\<lambda>_.
     bind (read_byte dec) (\<lambda>flags.
     bind (put self (NewClassDesc class_name uid flags [] PNone)) (\<lambda>_.
     bind (read_short dec) (\<lambda>fields_count.
     bind (NewClassDesc_fields dec (nat fields_count) []) (\<lambda>flds.
     bind (put self (NewClassDesc class_name uid flags flds PNone)) (\<lambda>_.
     bind dec (\<lambda>type.
     bind (gets heap) (\<lambda>H.
       if pyclass_of H type \<notin> set [C_EndBlockData]
       then raise (Exception ''Invalid type for enum'')
       else
         bind (alloc (ClassDesc PNone)) (\<lambda>super_class.
         bind (put self (NewClassDesc class_name uid flags flds (PObj super_class))) (\<lambda>_.
         ClassDesc_decode dec super_class))))))))))))))"

definition get_class_content :: "pyval \<Rightarrow> pyval M" where
  "get_class_content class_desc =
     bind (getattr_content class_desc) (\<lambda>content.
       if \<not> truthy content then return (PBool False)
       else
         bind (gets heap) (\<lambda>H.
           if pyclass_of H content = C_NewClassDesc then return content
           else return (PBool False)))"

text \<open>The field loop of \<^verbatim>\<open>NewObject.decode_class_data\<close>.\<close>

fun read_field_values :: "pyval M \<Rightarrow> pyval list \<Rightarrow> pyval list \<Rightarrow> pyval list M" where
  "read_field_values dec [] contents = return contents"
| "read_field_values dec (field # flds) contents =
     bind (gets heap) (\<lambda>H.
       case deref H field of
         Some (FieldE code _ _ _) \<Rightarrow>
           if Field_is_primitive code then
             (case Field_get_primitive_type code of
                None \<Rightarrow> raise KeyError
              | Some primitive_type \<Rightarrow>
                  bind (read_primitive dec (PStr primitive_type)) (\<lambda>value.
                  read_field_values dec flds (contents @ [value])))
           else
             bind dec (\<lambda>content.
             bind (gets heap) (\<lambda>H'.
             read_field_values dec flds (contents @ [unref H' content])))
       | _ \<Rightarrow> raise AttributeError)"

text \<open>
  \<^verbatim>\<open>NewObject.decode_class_data\<close>; \<open>dcd\<close> is the method itself, for the call on the
  super class.
\<close>

definition decode_class_data_body ::
  "pyval M \<Rightarrow> (pyval \<Rightarrow> pyval list M) \<Rightarrow> pyval \<Rightarrow> pyval list M" where
  "decode_class_data_body dec dcd new_class_desc =
     (if \<not> truthy new_class_desc then return []
      else
        bind (getattr_super_class new_class_desc) (\<lambda>super_class.
        bind (if truthy super_class then bind (get_class_content super_class) dcd
              else return []) (\<lambda>contents.
        bind (getattr_fields new_class_desc) (\<lambda>flds.
        read_field_values dec flds contents))))"

definition NewObject_decode :: "pyval M \<Rightarrow> (pyval \<Rightarrow> pyval list M) \<Rightarrow> addr \<Rightarrow> unit M" where
  "NewObject_decode dec dcd self =
     bind (alloc (ClassDesc PNone)) (\<lambda>class_desc.
     bind (put self (NewObject (PObj class_desc) [])) (\<lambda>_.
     bind (ClassDesc_decode dec class_desc) (\<lambda>_.
     bind (add_reference (PObj self)) (\<lambda>_.
     bind (get_class_content (PObj class_desc)) (\<lambda>new_class_desc.
     bind (dcd new_class_desc) (\<lambda>contents.
     put self (NewObject (PObj class_desc) contents)))))))"

definition Reference_decode :: "pyval M \<Rightarrow> addr \<Rightarrow> unit M" where
  "Reference_decode dec self =
     bind (read_int dec) (\<lambda>v.
       (let ref = v - BASE_WIRE_HANDLE in
        bind (put self (Reference ref PNone)) (\<lambda>_.
        bind (get_reference ref) (\<lambda>obj.
        put self (Reference ref obj)))))"

section \<open>Tag dispatch\<close>

text \<open>
  \<^verbatim>\<open>decode_object\<close>, with its recursive calls as parameters: \<open>dec\<close> for \<^verbatim>\<open>decode_object\<close>
  and \<open>dcd\<close> for \<^verbatim>\<open>decode_class_data\<close>. A tag that no branch takes falls to the final
  \<^verbatim>\<open>pass\<close>, and the function returns \<^verbatim>\<open>None\<close>.
\<close>

definition decode_object_body :: "pyval M \<Rightarrow> (pyval \<Rightarrow> pyval list M) \<Rightarrow> pyval M" where
  "decode_object_body dec dcd =
     bind (read_byte dec) (\<lambda>tc.
       if tc = 0 then raise (Exception ''Invalid type code'')
       else if tc = TC_ARRAY then
         bind (alloc (NewArray PNone 0 (PStr []) [])) (\<lambda>new_array.
         bind (NewArray_decode dec new_array) (\<lambda>_. return (PObj new_array)))
       else if tc = TC_BLOCKDATA then
         bind (alloc (BlockData 0 [] None)) (\<lambda>new_block_data.
         bind (BlockData_decode dec False new_block_data) (\<lambda>_. return (PObj new_block_data)))
       else if tc = TC_BLOCKDATALONG then
         bind (alloc (BlockDataLong 0 [] None)) (\<lambda>new_block_data_long.
         bind (BlockData_decode dec True new_block_data_long) (\<lambda>_.
         return (PObj new_block_data_long)))
       else if tc = TC_CLASS then
         bind (alloc (NewClass PNone)) (\<lambda>new_class.
         bind (NewClass_decode dec new_class) (\<lambda>_. return (PObj new_class)))
       else if tc = TC_CLASSDESC then
         bind (alloc (NewClassDesc [] 0 0 [] PNone)) (\<lambda>new_class_desc.
         bind (NewClassDesc_decode dec new_class_desc) (\<lambda>_. return (PObj new_class_desc)))
       else if tc = TC_ENDBLOCKDATA then
         bind (alloc EndBlockData) (\<lambda>e. return (PObj e))
       else if tc = TC_ENUM then
         bind (alloc (Enum PNone PNone)) (\<lambda>new_enum.
         bind (Enum_decode dec new_enum) (\<lambda>_. return (PObj new_enum)))
       else if tc = TC_EXCEPTION then
         bind (alloc (JavaException PNone)) (\<lambda>new_exception.
         bind (JavaException_decode dec new_exception) (\<lambda>_. return (PObj new_exception)))
       else if tc = TC_LONGSTRING then
         bind (alloc (LongString [])) (\<lambda>new_long_string.
         bind (LongString_decode dec new_long_string) (\<lambda>_.
         bind (add_reference (PObj new_long_string)) (\<lambda>_.
         return (PObj new_long_string))))
       else if tc = TC_NULL then
         bind (alloc Null) (\<lambda>e. return (PObj e))
       else if tc = TC_OBJECT then
         bind (alloc (NewObject PNone [])) (\<lambda>new_object.
         bind (NewObject_decode dec dcd new_object) (\<lambda>_. return (PObj new_object)))
       else if tc = TC_PROXYCLASSDESC then
         raise (Exception ''TC_PROXYCLASSDESC not supported'')
       else if tc = TC_REFERENCE then
         bind (alloc (Reference 0 PNone)) (\<lambda>new_reference.
         bind (Reference_decode dec new_reference) (\<lambda>_. return (PObj new_reference)))
       else if tc = TC_STRING then
         bind (alloc (String [])) (\<lambda>new_string.
         bind (String_decode dec new_string) (\<lambda>_.
         bind (add_reference (PObj new_string)) (\<lambda>_.
         return (PObj new_string))))
       else return PNone)"

text \<open>
  The two recursive functions. The first argument bounds the depth to which calls of
  \<^verbatim>\<open>decode_object\<close> and \<^verbatim>\<open>decode_class_data\<close> nest; a call that would nest deeper gives
  \<open>OutOfFuel\<close>. The loops inside a call are unbounded.
\<close>

fun decode_object :: "nat \<Rightarrow> pyval M"
  and decode_class_data :: "nat \<Rightarrow> pyval \<Rightarrow> pyval list M" where
  "decode_object 0 = (\<lambda>h. OutOfFuel)"
| "decode_object (Suc n) = decode_object_body (decode_object n) (decode_class_data n)"
| "decode_class_data 0 = (\<lambda>new_class_desc h. OutOfFuel)"
| "decode_class_data (Suc n) =
     decode_class_data_body (decode_object n) (decode_class_data n)"

text \<open>\<^verbatim>\<open>Handler.read_object\<close>\<close>

definition read_object :: "nat \<Rightarrow> pyval M" where
  "read_object n = decode_object n"

text \<open>
  \<^verbatim>\<open>ProxyClassDesc.decode\<close>. No call reaches it: \<^verbatim>\<open>decode_object\<close> raises at
  \<^verbatim>\<open>TC_PROXYCLASSDESC\<close> before it would construct the object.
\<close>

fun ProxyClassDesc_ifaces :: "pyval M \<Rightarrow> addr \<Rightarrow> nat \<Rightarrow> unit M" where
  "ProxyClassDesc_ifaces dec self 0 = return ()"
| "ProxyClassDesc_ifaces dec self (Suc i) =
     bind (inline_String dec) (\<lambda>iface.
     bind (gets heap) (\<lambda>H.
       case deref H (PObj self) of
         Some (ProxyClassDesc ifaces super_class) \<Rightarrow>
           bind (put self (ProxyClassDesc (ifaces @ [PStr iface]) super_class)) (\<lambda>_.
           ProxyClassDesc_ifaces dec self i)
       | _ \<Rightarrow> raise AttributeError))"

definition ProxyClassDesc_decode :: "pyval M \<Rightarrow> addr \<Rightarrow> unit M" where
  "ProxyClassDesc_decode dec self =
     bind (add_reference (PObj self)) (\<lambda>_.
     bind (read_int dec) (\<lambda>size.
     bind (ProxyClassDesc_ifaces dec self (nat size)) (\<lambda>_.
     bind dec (\<lambda>type.
     bind (gets heap) (\<lambda>H.
       if pyclass_of H type \<notin> set [C_EndBlockData]
       then raise (Exception ''Invalid type for enum'')
       else
         bind (alloc (ClassDesc PNone)) (\<lambda>super_class.
         bind (gets heap) (\<lambda>H1.
           case deref H1 (PObj self) of
             Some (ProxyClassDesc ifaces _) \<Rightarrow>
               bind (put self (ProxyClassDesc ifaces (PObj super_class))) (\<lambda>_.
               ClassDesc_decode dec super_class)
           | _ \<Rightarrow> raise AttributeError)))))))"

section \<open>Opening a stream\<close>

text \<open>
  \<^verbatim>\<open>Handler.__init__\<close> on a fresh interpreter state (an empty store): the attributes are
  set, a \<^verbatim>\<open>Header\<close> is constructed with the expected magic and version as its initial
  attributes, and \<^verbatim>\<open>Header.decode\<close> overwrites them with the four bytes read.
\<close>

definition Handler_init :: "pyval M \<Rightarrow> bool \<Rightarrow> bytesio \<Rightarrow> unit result" where
  "Handler_init dec cx io0 =
     bind (alloc (Header STREAM_MAGIC STREAM_VERSION)) (\<lambda>hd.
     bind (modify (\<lambda>h. h\<lparr>header := PObj hd\<rparr>)) (\<lambda>_.
     Header_decode dec hd))
     \<lparr>io = io0, pos = 0, endp = 0, block_mode = False, block_data = PNone,
      references = [], header = PNone, heap = [], struct_complex = cx\<rparr>"

section \<open>Callers\<close>

text \<open>
  A caller of the module: \<^verbatim>\<open>h = Handler(BytesIO(bs))\<close> with the interpreter's \<^verbatim>\<open>struct\<close>
  flavour \<open>cx\<close>, followed by a call \<open>m\<close> on the handler; and \<open>k\<close> calls of
  \<^verbatim>\<open>h.read_object()\<close>, collecting what they return.
\<close>

definition open_stream :: "bool \<Rightarrow> byte list \<Rightarrow> unit result" where
  "open_stream cx bs = Handler_init (decode_object 0) cx \<lparr>buf = bs, cur = 0\<rparr>"

definition on_stream :: "bool \<Rightarrow> byte list \<Rightarrow> 'a M \<Rightarrow> 'a result" where
  "on_stream cx bs m =
     (case open_stream cx bs of
        Return _ h \<Rightarrow> m h
      | Raise e h \<Rightarrow> Raise e h
      | OutOfFuel \<Rightarrow> OutOfFuel)"

fun read_objects :: "nat \<Rightarrow> nat \<Rightarrow> pyval list M" where
  "read_objects n 0 = return []"
| "read_objects n (Suc k) =
     bind (read_object n) (\<lambda>v. bind (read_objects n k) (\<lambda>vs. return (v # vs)))"

text \<open>
  The handler that \<^verbatim>\<open>Handler(BytesIO(AC ED 00 05 + bs))\<close> leaves: four bytes read, the
  header object at address 0.
\<close>

definition opened :: "bool \<Rightarrow> byte list \<Rightarrow> handler" where
  "opened cx bs =
     \<lparr>io = \<lparr>buf = [0xAC, 0xED, 0x00, 0x05] @ bs, cur = 4\<rparr>, pos = 4, endp = 0,
      block_mode = False, block_data = PNone, references = [], header = PObj 0,
      heap = [Header 0xACED 5], struct_complex = cx\<rparr>"



text \<open>
  An array stream (after the header): an array whose class descriptor is the one of a
  class \<open>X\<close>, of size 2, with the elements \<open>"A"\<close> (a \<^verbatim>\<open>TC_STRING\<close>) and null.
  \<open>array_state k refs H\<close> is the handler while the stream is decoded: \<open>k\<close> bytes have
  been read, the handle table is \<open>refs\<close> and the store is \<open>H\<close>; \<open>array_store a es\<close> is
  the store once the descriptor has been decoded, with the \<^verbatim>\<open>NewArray\<close> \<open>a\<close> at address 1
  and the elements \<open>es\<close> behind the descriptor.
\<close>

definition array_stream :: "byte list" where
  "array_stream =
     [0x75,
      0x72, 0x00, 0x01, 0x58, 0x00, 0x00, 0x00, 0x00, 0x00, 0x00, 0x00, 0x00, 0x02,
      0x00, 0x00, 0x78,
      0x70,
      0x00, 0x00, 0x00, 0x02,
      0x74, 0x00, 0x01, 0x41,
      0x70]"

definition array_state :: "nat \<Rightarrow> pyval list \<Rightarrow> element list \<Rightarrow> handler" where
  "array_state k refs H =
     \<lparr>io = \<lparr>buf = [0xAC, 0xED, 0x00, 0x05] @ array_stream, cur = k\<rparr>, pos = int k, endp = 0,
      block_mode = False, block_data = PNone, references = refs, header = PObj 0,
      heap = H, struct_complex = False\<rparr>"

definition array_store :: "element \<Rightarrow> element list \<Rightarrow> element list" where
  "array_store a es =
     [Header 0xACED 5, a, NewClassDesc ''X'' 0 2 [] (PObj 5), String ''X'', EndBlockData,
      ClassDesc (PObj 6), Null] @ es"

section \<open>Well-formed states and what a call preserves\<close>

text \<open>
  A value is valid in a store when it is no object or an object of the store. Python has
  no dangling pointers; the store of the model has none when the pointers a decoder
  follows are valid: the handle table, the target of a \<^verbatim>\<open>Reference\<close>, the content of a
  \<^verbatim>\<open>ClassDesc\<close> and the super class of a \<^verbatim>\<open>NewClassDesc\<close>. A frame whose \<^verbatim>\<open>io\<close> is set
  holds as many bytes as its \<^verbatim>\<open>size\<close> says.
\<close>

definition valid :: "element list \<Rightarrow> pyval \<Rightarrow> bool" where
  "valid H v = (case v of PObj a \<Rightarrow> a < length H | _ \<Rightarrow> True)"

fun is_block :: "element \<Rightarrow> bool" where
  "is_block (BlockData _ _ _) = True"
| "is_block (BlockDataLong _ _ _) = True"
| "is_block _ = False"

fun elem_ok :: "element list \<Rightarrow> element \<Rightarrow> bool" where
  "elem_ok H (BlockData sz c bio) = (case bio of None \<Rightarrow> True | Some b \<Rightarrow> int (length (buf b)) = sz)"
| "elem_ok H (BlockDataLong sz c bio) = (case bio of None \<Rightarrow> True | Some b \<Rightarrow> int (length (buf b)) = sz)"
| "elem_ok H (ClassDesc c) = valid H c"
| "elem_ok H (Reference r obj) = valid H obj"
| "elem_ok H (NewClassDesc cn uid fl flds sc) = valid H sc"
| "elem_ok H _ = True"

definition wf_state :: "handler \<Rightarrow> bool" where
  "wf_state h \<longleftrightarrow>
     list_all (elem_ok (heap h)) (heap h) \<and> list_all (valid (heap h)) (references h)"

text \<open>
  The objects below address \<open>k\<close> are the same in \<open>H'\<close> as in \<open>H\<close>, except that a frame
  may have been read from (it is still a frame).
\<close>

definition unchanged :: "nat \<Rightarrow> element list \<Rightarrow> element list \<Rightarrow> bool" where
  "unchanged k H H' \<longleftrightarrow>
     (\<forall>a<k. if is_block (H ! a) then is_block (H' ! a) else H' ! a = H ! a)"

text \<open>
  What holds of a state \<open>h\<close> that a run has reached from \<open>h0\<close> when it has written to no
  object below \<open>k\<close>: the store has only grown, the handle table has only been appended
  to, and the state is well formed.
\<close>

definition since :: "nat \<Rightarrow> handler \<Rightarrow> handler \<Rightarrow> bool" where
  "since k h0 h \<longleftrightarrow>
     k \<le> length (heap h0) \<and> length (heap h0) \<le> length (heap h)
     \<and> unchanged k (heap h0) (heap h)
     \<and> prefix (references h0) (references h)
     \<and> struct_complex h = struct_complex h0
     \<and> wf_state h"

text \<open>Partial correctness of a call: from a state in \<open>P\<close>, a call that returns leaves \<open>Q\<close>.\<close>

definition hoare :: "(handler \<Rightarrow> bool) \<Rightarrow> 'a M \<Rightarrow> ('a \<Rightarrow> handler \<Rightarrow> bool) \<Rightarrow> bool" where
  "hoare P m Q \<longleftrightarrow> (\<forall>h v h'. P h \<longrightarrow> m h = Return v h' \<longrightarrow> Q v h')"

definition safe :: "'a M \<Rightarrow> bool" where
  "safe m \<longleftrightarrow> (\<forall>k h0. hoare (since k h0) m (\<lambda>_. since k h0))"

text \<open>
  One step of a run: a call of the handler or of a decoder that returns, the
  construction of an object, or an assignment to an attribute whose pointers are valid.
  \<open>later h h'\<close>: the run has gone from \<open>h\<close> to \<open>h'\<close>.
\<close>

inductive step :: "handler \<Rightarrow> handler \<Rightarrow> bool" where
  step_decode_object: "decode_object n h = Return v h' \<Longrightarrow> step h h'"
| step_decode_class_data: "decode_class_data n c h = Return vs h' \<Longrightarrow> step h h'"
| step_read_struct: "read_struct (decode_object n) unpack h = Return vs h' \<Longrightarrow> step h h'"
| step_refill: "refill (decode_object n) h = Return u h' \<Longrightarrow> step h h'"
| step_set_block_data_mode: "set_block_data_mode newmode h = Return v h' \<Longrightarrow> step h h'"
| step_skip: "skip i h = Return u h' \<Longrightarrow> step h h'"
| step_add_reference: "add_reference r h = Return u h' \<Longrightarrow> valid (heap h) r \<Longrightarrow> step h h'"
| step_alloc: "alloc e h = Return a h' \<Longrightarrow> elem_ok (heap h') e \<Longrightarrow> step h h'"
| step_put: "put a e h = Return u h' \<Longrightarrow> elem_ok (heap h) e \<Longrightarrow> step h h'"

inductive later :: "handler \<Rightarrow> handler \<Rightarrow> bool" where
  later_refl: "later h h"
| later_step: "later h h1 \<Longrightarrow> step h1 h2 \<Longrightarrow> later h h2"



text \<open>
  Two stores have the same descriptors when the second extends the first and an address
  of the first that holds a \<^verbatim>\<open>NewClassDesc\<close> or a \<^verbatim>\<open>ClassDesc\<close> in either store holds
  the same object in both.
\<close>

definition same_descs :: "element list \<Rightarrow> element list \<Rightarrow> bool" where
  "same_descs H H' \<longleftrightarrow>
     length H \<le> length H'
     \<and> (\<forall>x<length H.
          class_of (H ! x) \<in> {C_NewClassDesc, C_ClassDesc}
          \<or> class_of (H' ! x) \<in> {C_NewClassDesc, C_ClassDesc} \<longrightarrow> H' ! x = H ! x)"

text \<open>
  The cursor of block mode: \<^verbatim>\<open>pos\<close> has not passed \<^verbatim>\<open>end\<close>, and while bytes of the
  current frame are unread, \<^verbatim>\<open>end\<close> is the frame's size and \<^verbatim>\<open>pos\<close> has not passed the
  position of the frame's \<^verbatim>\<open>BytesIO\<close>.
\<close>

definition cursor_ok :: "handler \<Rightarrow> bool" where
  "cursor_ok h \<longleftrightarrow>
     (block_mode h \<longrightarrow>
        pos h \<le> endp h
        \<and> (pos h < endp h \<longrightarrow>
             (case deref (heap h) (block_data h) of
                Some (BlockData sz c (Some b)) \<Rightarrow> endp h = sz \<and> pos h \<le> int (cur b)
              | Some (BlockDataLong sz c (Some b)) \<Rightarrow> endp h = sz \<and> pos h \<le> int (cur b)
              | _ \<Rightarrow> True)))"

section \<open>Evaluating the model\<close>

text \<open>
  The recursive functions are unfolded only where they are applied to a handler, so that
  a decoder passed as an argument stays folded until it is called.
\<close>

declare decode_object.simps [simp del]

named_theorems exec

lemma bind_apply [exec]:
  "bind m f h = (case m h of Return v h' \<Rightarrow> f v h' | Raise e h' \<Rightarrow> Raise e h' | OutOfFuel \<Rightarrow> OutOfFuel)"
  by (simp add: bind_def)

lemma return_apply [exec]: "return v h = Return v h"
  by (simp add: return_def)

lemma raise_apply [exec]: "raise e h = Raise e h"
  by (simp add: raise_def)

lemma gets_apply [exec]: "gets f h = Return (f h) h"
  by (simp add: gets_def)

lemma modify_apply [exec]: "modify f h = Return () (f h)"
  by (simp add: modify_def)

lemma alloc_apply [exec]:
  "alloc e h = Return (length (heap h)) (h\<lparr>heap := heap h @ [e]\<rparr>)"
  by (simp add: alloc_def)

lemma put_apply [exec]: "put a e h = Return () (h\<lparr>heap := (heap h)[a := e]\<rparr>)"
  by (simp add: put_def modify_def)

lemma add_reference_apply [exec]:
  "add_reference r h = Return () (h\<lparr>references := references h @ [r]\<rparr>)"
  by (simp add: add_reference_def modify_def)

lemma stream_read_apply [exec]:
  "stream_read ln h = (case bio_read ln (io h) of (ba, io') \<Rightarrow> Return ba (h\<lparr>io := io'\<rparr>))"
  by (simp add: stream_read_def)

lemma decode_object_Suc [exec]:
  "decode_object (Suc n) h = decode_object_body (decode_object n) (decode_class_data n) h"
  by (simp add: decode_object.simps)

lemma decode_object_numeral [exec]:
  "decode_object (numeral k) h =
     decode_object_body (decode_object (pred_numeral k)) (decode_class_data (pred_numeral k)) h"
  by (simp add: numeral_eq_Suc decode_object.simps)

lemma decode_object_0 [exec]: "decode_object 0 h = OutOfFuel"
  by (simp add: decode_object.simps)


lemma decode_class_data_numeral [exec]:
  "decode_class_data (numeral k) c h =
     decode_class_data_body (decode_object (pred_numeral k)) (decode_class_data (pred_numeral k)) c h"
  by (simp add: numeral_eq_Suc decode_object.simps)


lemma read_chars_numeral [exec]:
  "read_chars dec (numeral k) c =
     bind (read_byte dec) (\<lambda>b. read_chars dec (pred_numeral k) (c @ [char_of b]))"
  by (simp add: numeral_eq_Suc)

lemma NewArray_contents_numeral [exec]:
  "NewArray_contents dec ty (numeral k) contents =
     bind (read_primitive dec ty) (\<lambda>content.
     bind (gets heap) (\<lambda>H.
     NewArray_contents dec ty (pred_numeral k) (contents @ [unref H content])))"
  by (simp add: numeral_eq_Suc)

lemma NewClassDesc_fields_numeral [exec]:
  "NewClassDesc_fields dec (numeral k) flds =
     bind (alloc (FieldE 0 (PInt 0) PNone PNone)) (\<lambda>field.
     bind (Field_decode dec field) (\<lambda>_.
     NewClassDesc_fields dec (pred_numeral k) (flds @ [PObj field])))"
  by (simp add: numeral_eq_Suc)

lemma read_objects_numeral [exec]:
  "read_objects n (numeral k) =
     bind (read_object n) (\<lambda>v. bind (read_objects n (pred_numeral k)) (\<lambda>vs. return (v # vs)))"
  by (simp add: numeral_eq_Suc)

lemmas tc_defs =
  TC_ARRAY_def TC_BLOCKDATA_def TC_NULL_def TC_REFERENCE_def TC_CLASSDESC_def TC_OBJECT_def
  TC_STRING_def TC_CLASS_def TC_ENDBLOCKDATA_def TC_RESET_def TC_BLOCKDATALONG_def
  TC_EXCEPTION_def TC_LONGSTRING_def TC_PROXYCLASSDESC_def TC_ENUM_def BASE_WIRE_HANDLE_def
  STREAM_MAGIC_def STREAM_VERSION_def

lemmas dec_defs =
  decode_object_body_def decode_class_data_body_def read_object_def read_byte_def
  read_struct_def refill_def read_short_def read_int_def read_long_def read_boolean_def
  read_char_def read_float_def read_double_def read_primitive_def String_decode_def
  LongString_decode_def inline_String_def BlockData_decode_def ClassDesc_decode_def
  Enum_decode_def Field_decode_def Header_decode_def JavaException_decode_def
  NewArray_decode_def NewClass_decode_def NewClassDesc_decode_def NewObject_decode_def
  Reference_decode_def get_class_content_def getattr_content_def getattr_fields_def
  getattr_super_class_def get_reference_def set_block_data_mode_def block_read_def
  bio_read_def deref_def pyclass_of_def unref_def array_type_def Field_is_valid_def
  Field_is_object_def Field_is_primitive_def Field_get_primitive_type_def TYPES_def
  PRIMITIVE_TYPES_def OBJECT_TYPES_def Handler_init_def get_unread_def open_stream_def
  on_stream_def opened_def Let_def char_of_def

lemma open_stream_opened:
  "open_stream cx ([0xAC, 0xED, 0x00, 0x05] @ bs) = Return () (opened cx bs)"
  by (simp add: exec dec_defs tc_defs)

section \<open>What every call preserves\<close>

text \<open>
  Every call of the handler and of a decoder that returns leaves the state well formed,
  has only appended to the handle table, and has written to no object that existed when
  it was called, except to the object it decodes and to the frame it reads from.
\<close>

subsection \<open>Rules of the triples\<close>

lemma hoareI: "(\<And>h v h'. P h \<Longrightarrow> m h = Return v h' \<Longrightarrow> Q v h') \<Longrightarrow> hoare P m Q"
  by (simp add: hoare_def)

lemma hoareD: "hoare P m Q \<Longrightarrow> P h \<Longrightarrow> m h = Return v h' \<Longrightarrow> Q v h'"
  by (simp add: hoare_def)

lemma hoare_bind:
  "hoare P m Q \<Longrightarrow> (\<And>v. hoare (Q v) (f v) R) \<Longrightarrow> hoare P (bind m f) R"
  by (auto simp: hoare_def bind_def split: result.splits)

lemma hoare_return: "(\<And>h. P h \<Longrightarrow> Q v h) \<Longrightarrow> hoare P (return v) Q"
  by (simp add: hoare_def return_def)

lemma hoare_raise: "hoare P (raise e) Q"
  by (simp add: hoare_def raise_def)

lemma hoare_gets: "(\<And>h. P h \<Longrightarrow> Q (f h) h) \<Longrightarrow> hoare P (gets f) Q"
  by (simp add: hoare_def gets_def)

lemma hoare_modify: "(\<And>h. P h \<Longrightarrow> Q () (f h)) \<Longrightarrow> hoare P (modify f) Q"
  by (simp add: hoare_def modify_def)

lemma hoare_pre: "hoare P' m Q \<Longrightarrow> (\<And>h. P h \<Longrightarrow> P' h) \<Longrightarrow> hoare P m Q"
  by (auto simp: hoare_def)

lemma hoare_post: "hoare P m Q' \<Longrightarrow> (\<And>v h. Q' v h \<Longrightarrow> Q v h) \<Longrightarrow> hoare P m Q"
  by (auto simp: hoare_def)

lemma hoare_bind_gets:
  "(\<And>x. hoare (\<lambda>h. P h \<and> x = f h) (g x) R) \<Longrightarrow> hoare P (bind (gets f) g) R"
  by (auto simp: hoare_def bind_def gets_def)

lemma hoare_if:
  "(b \<Longrightarrow> hoare P m1 Q) \<Longrightarrow> (\<not> b \<Longrightarrow> hoare P m2 Q) \<Longrightarrow> hoare P (if b then m1 else m2) Q"
  by simp

lemma hoare_fuel: "hoare P (\<lambda>h. OutOfFuel) Q"
  by (simp add: hoare_def)

subsection \<open>Validity and the invariant\<close>

lemma valid_mono: "valid H v \<Longrightarrow> length H \<le> length H' \<Longrightarrow> valid H' v"
  by (auto simp: valid_def split: pyval.splits)

lemma elem_ok_mono: "elem_ok H e \<Longrightarrow> length H \<le> length H' \<Longrightarrow> elem_ok H' e"
  by (cases e) (auto intro: valid_mono)

lemma elem_ok_length: "length H = length H' \<Longrightarrow> elem_ok H e = elem_ok H' e"
  by (cases e) (auto simp: valid_def split: pyval.splits)

lemma unchanged_refl: "unchanged k H H"
  by (simp add: unchanged_def)

lemma unchanged_trans: "unchanged k H H1 \<Longrightarrow> unchanged k H1 H2 \<Longrightarrow> unchanged k H H2"
  unfolding unchanged_def by (metis)


lemma since_refl: "wf_state h \<Longrightarrow> k \<le> length (heap h) \<Longrightarrow> since k h h"
  by (simp add: since_def unchanged_refl)

lemma since_trans: "since k h0 s \<Longrightarrow> since k s h \<Longrightarrow> since k h0 h"
  by (auto simp: since_def intro: unchanged_trans)

lemma since_wf: "since k h0 h \<Longrightarrow> wf_state h"
  by (simp add: since_def)

lemma since_length: "since k h0 h \<Longrightarrow> length (heap h0) \<le> length (heap h)"
  by (simp add: since_def)


lemma wf_state_put:
  assumes "wf_state h" "elem_ok (heap h) e"
  shows "wf_state (h\<lparr>heap := (heap h)[a := e]\<rparr>)"
proof -
  have len: "length ((heap h)[a := e]) = length (heap h)" by simp
  have "\<And>x. x \<in> set ((heap h)[a := e]) \<Longrightarrow> elem_ok (heap h) x"
    using assms set_update_subset_insert [of "heap h" a e]
    by (auto simp: wf_state_def list_all_iff)
  then have "list_all (elem_ok ((heap h)[a := e])) ((heap h)[a := e])"
    using elem_ok_length [OF len] by (simp add: list_all_iff)
  moreover have "list_all (valid ((heap h)[a := e])) (references h)"
    using assms by (auto simp: wf_state_def list_all_iff valid_def split: pyval.splits)
  ultimately show ?thesis by (simp add: wf_state_def)
qed

lemma wf_state_alloc:
  assumes "wf_state h" "elem_ok (heap h @ [e]) e"
  shows "wf_state (h\<lparr>heap := heap h @ [e]\<rparr>)"
  using assms
  by (auto simp: wf_state_def list_all_iff intro: elem_ok_mono valid_mono)

lemma since_put:
  assumes "since k h0 h" "k \<le> a" "elem_ok (heap h) e"
  shows "since k h0 (h\<lparr>heap := (heap h)[a := e]\<rparr>)"
  using assms wf_state_put [of h e a]
  by (auto simp: since_def unchanged_def)

lemma hoare_put:
  "k \<le> a \<Longrightarrow> (\<And>h. P h \<Longrightarrow> since k h0 h \<and> elem_ok (heap h) e) \<Longrightarrow>
   hoare P (put a e) (\<lambda>_. since k h0)"
  by (auto simp: hoare_def put_def modify_def intro: since_put)

lemma since_alloc:
  assumes "since k h0 h" "elem_ok (heap h @ [e]) e"
  shows "since k h0 (h\<lparr>heap := heap h @ [e]\<rparr>)"
  using assms wf_state_alloc [of h e]
  by (auto simp: since_def unchanged_def nth_append)

lemma hoare_alloc:
  assumes e: "\<And>H. elem_ok H e"
    and f: "\<And>a s. since k h0 s \<Longrightarrow> a < length (heap s) \<Longrightarrow> length (heap h0) \<le> a \<Longrightarrow>
              hoare (since k s) (f a) (\<lambda>_. since k s)"
  shows "hoare (since k h0) (bind (alloc e) f) (\<lambda>_. since k h0)"
proof (rule hoareI)
  fix h v h'
  assume h: "since k h0 h" and run: "bind (alloc e) f h = Return v h'"
  let ?s = "h\<lparr>heap := heap h @ [e]\<rparr>"
  have s: "since k h0 ?s" using h e by (rule since_alloc)
  have kk: "k \<le> length (heap ?s)" using h by (simp add: since_def)
  have ss: "since k ?s ?s" using since_wf [OF s] kk by (rule since_refl)
  from run have run': "f (length (heap h)) ?s = Return v h'"
    by (simp add: bind_def alloc_def)
  have "length (heap h) < length (heap ?s)" by simp
  moreover have "length (heap h0) \<le> length (heap h)" using h by (rule since_length)
  ultimately have "hoare (since k ?s) (f (length (heap h))) (\<lambda>_. since k ?s)"
    by (rule f [OF s])
  then have "since k ?s h'" using ss run' by (rule hoareD)
  with s show "since k h0 h'" by (rule since_trans)
qed

lemma hoare_add_reference:
  "(\<And>h. P h \<Longrightarrow> since k h0 h \<and> valid (heap h) r) \<Longrightarrow>
   hoare P (add_reference r) (\<lambda>_. since k h0)"
  by (auto simp: hoare_def add_reference_def modify_def since_def wf_state_def)

lemma safeD: "safe m \<Longrightarrow> hoare (since k h0) m (\<lambda>_. since k h0)"
  by (simp add: safe_def)

subsection \<open>Combinators\<close>

lemma safeI: "(\<And>k h0. hoare (since k h0) m (\<lambda>_. since k h0)) \<Longrightarrow> safe m"
  by (simp add: safe_def)

lemma safe_bind: "safe m \<Longrightarrow> (\<And>v. safe (f v)) \<Longrightarrow> safe (bind m f)"
  unfolding safe_def by (blast intro: hoare_bind)

lemma safe_return: "safe (return v)"
  by (simp add: safe_def hoare_return)

lemma safe_raise: "safe (raise e)"
  by (simp add: safe_def hoare_raise)

lemma safe_gets: "safe (gets f)"
  by (simp add: safe_def hoare_gets)

lemma safe_fuel: "safe (\<lambda>h. OutOfFuel)"
  by (simp add: safe_def hoare_fuel)

lemma keeps_bind:
  "hoare (since k h0) m (\<lambda>_. since k h0) \<Longrightarrow> (\<And>v. hoare (since k h0) (f v) (\<lambda>_. since k h0)) \<Longrightarrow>
   hoare (since k h0) (bind m f) (\<lambda>_. since k h0)"
  by (rule hoare_bind)

lemma since_io [simp]: "since k h0 (h\<lparr>io := x\<rparr>) = since k h0 h"
  by (simp add: since_def wf_state_def)

lemma since_pos [simp]: "since k h0 (h\<lparr>pos := x\<rparr>) = since k h0 h"
  by (simp add: since_def wf_state_def)

lemma since_endp [simp]: "since k h0 (h\<lparr>endp := x\<rparr>) = since k h0 h"
  by (simp add: since_def wf_state_def)

lemma since_block_mode [simp]: "since k h0 (h\<lparr>block_mode := x\<rparr>) = since k h0 h"
  by (simp add: since_def wf_state_def)

lemma since_block_data [simp]: "since k h0 (h\<lparr>block_data := x\<rparr>) = since k h0 h"
  by (simp add: since_def wf_state_def)

subsection \<open>The handler's reads\<close>

lemma safe_stream_read: "safe (stream_read ln)"
  by (auto simp: safe_def hoare_def stream_read_def split: prod.splits)

lemma safe_set_block_data_mode: "safe (set_block_data_mode b)"
  by (auto simp: safe_def hoare_def set_block_data_mode_def split: if_splits)

lemma skip_since: "skip n h = Return v h' \<Longrightarrow> since k h0 h \<Longrightarrow> since k h0 h'"
proof (induction n h rule: skip.induct)
  case (1 n h)
  show ?case
  proof (cases "n > 0")
    case True
    obtain sk io' where sk: "bio_seek_cur n (io h) = (sk, io')"
      by (cases "bio_seek_cur n (io h)")
    with True "1.prems"(1) have nz: "sk \<noteq> 0" and run: "skip (n - sk) (h\<lparr>io := io'\<rparr>) = Return v h'"
      by (auto split: if_splits)
    from "1.IH" [OF True sk [symmetric] nz run] "1.prems"(2) show ?thesis by simp
  next
    case False
    with "1.prems" show ?thesis by simp
  qed
qed

lemma safe_skip: "safe (skip n)"
  by (auto simp: safe_def hoare_def intro: skip_since)

lemma since_block_read:
  assumes "since k h0 h" "a < length (heap h)" "is_block (heap h ! a)" "is_block e"
    "elem_ok (heap h) e"
  shows "since k h0 (h\<lparr>heap := (heap h)[a := e]\<rparr>)"
proof -
  have wf: "wf_state (h\<lparr>heap := (heap h)[a := e]\<rparr>)"
    using since_wf [OF assms(1)] assms(5) by (rule wf_state_put)
  have "unchanged k (heap h0) ((heap h)[a := e])"
    unfolding unchanged_def
  proof (intro allI impI)
    fix x assume x: "x < k"
    with assms(1) have u: "if is_block (heap h0 ! x) then is_block (heap h ! x)
        else heap h ! x = heap h0 ! x"
      by (simp add: since_def unchanged_def)
    show "if is_block (heap h0 ! x) then is_block ((heap h)[a := e] ! x)
        else (heap h)[a := e] ! x = heap h0 ! x"
    proof (cases "x = a")
      case True
      with u assms(2,3,4) show ?thesis by (auto split: if_splits)
    next
      case False
      with u show ?thesis by (auto split: if_splits)
    qed
  qed
  with assms(1) wf show ?thesis by (simp add: since_def)
qed

lemma safe_block_read: "safe (block_read ln)"
proof (rule safeI, rule hoareI)
  fix k h0 h v h'
  assume s: "since k h0 h" and run: "block_read ln h = Return v h'"
  from run obtain a where bd: "block_data h = PObj a"
    by (auto simp: block_read_def split: pyval.splits)
  from run bd have a: "a < length (heap h)"
    by (auto simp: block_read_def deref_def split: if_splits)
  from since_wf [OF s] a have ok: "elem_ok (heap h) (heap h ! a)"
    by (simp add: wf_state_def list_all_length)
  from run bd a obtain e where h': "h' = h\<lparr>heap := (heap h)[a := e]\<rparr>"
    and e: "is_block e" "is_block (heap h ! a)" "elem_ok (heap h) e"
    using ok
    by (auto simp: block_read_def deref_def bio_read_def Let_def
             split: option.splits element.splits prod.splits)
  from s a e(2) e(1) e(3) show "since k h0 h'"
    unfolding h' by (rule since_block_read)
qed

lemma safe_if: "(b \<Longrightarrow> safe m1) \<Longrightarrow> (\<not> b \<Longrightarrow> safe m2) \<Longrightarrow> safe (if b then m1 else m2)"
  by simp

lemma safe_modify_cursor: "safe (modify (\<lambda>h. h\<lparr>block_data := bd, pos := p, endp := e\<rparr>))"
  by (simp add: safe_def hoare_def modify_def)

lemma safe_modify_pos: "safe (modify (\<lambda>h. h\<lparr>pos := f h\<rparr>))"
  by (simp add: safe_def hoare_def modify_def)

lemma safe_refill:
  assumes "safe dec"
  shows "safe (refill dec)"
  unfolding refill_def
  apply (intro safe_bind safe_gets safe_if safe_raise safe_skip safe_set_block_data_mode assms)
  apply (simp split: option.split element.split add: safe_raise safe_modify_cursor)
  done

lemma safe_read_struct:
  assumes "safe dec"
  shows "safe (read_struct dec unpack)"
  unfolding read_struct_def
  apply (rule safe_bind [OF safe_gets])
  apply (simp split: option.split add: safe_raise)
  apply (intro allI impI safe_bind safe_gets safe_if safe_raise safe_return safe_refill
      safe_block_read safe_stream_read safe_modify_pos assms)
  done

lemma safe_unpack1: "safe (unpack1 vs)"
  by (cases vs rule: unpack1.cases) (simp_all add: safe_return safe_raise)

lemma safe_read_byte: "safe dec \<Longrightarrow> safe (read_byte dec)"
  unfolding read_byte_def
  apply (intro safe_bind safe_read_struct safe_unpack1)
   apply assumption
  apply (simp split: pyval.split add: safe_return safe_raise)
  done

lemma safe_read_boolean: "safe dec \<Longrightarrow> safe (read_boolean dec)"
  unfolding read_boolean_def by (intro safe_bind safe_read_struct safe_unpack1)

lemma safe_read_char: "safe dec \<Longrightarrow> safe (read_char dec)"
  unfolding read_char_def by (intro safe_bind safe_read_struct safe_unpack1)

lemma safe_read_float: "safe dec \<Longrightarrow> safe (read_float dec)"
  unfolding read_float_def by (intro safe_bind safe_read_struct safe_unpack1)

lemma safe_read_double: "safe dec \<Longrightarrow> safe (read_double dec)"
  unfolding read_double_def by (intro safe_bind safe_read_struct safe_unpack1)

lemma safe_read_short: "safe dec \<Longrightarrow> safe (read_short dec)"
  unfolding read_short_def by (intro safe_bind safe_read_byte safe_return)

lemma safe_read_int: "safe dec \<Longrightarrow> safe (read_int dec)"
  unfolding read_int_def by (intro safe_bind safe_read_short safe_return)

lemma safe_read_long: "safe dec \<Longrightarrow> safe (read_long dec)"
  unfolding read_long_def by (intro safe_bind safe_read_int safe_return)

lemma safe_read_primitive: "safe dec \<Longrightarrow> safe (read_primitive dec ty)"
  unfolding read_primitive_def
  by (intro safe_if safe_bind safe_return safe_read_byte safe_read_char safe_read_double
      safe_read_float safe_read_int safe_read_long safe_read_short safe_read_boolean)

lemma safe_read_chars: "safe dec \<Longrightarrow> safe (read_chars dec n contents)"
  by (induction n arbitrary: contents) (auto intro!: safe_return safe_bind safe_read_byte)

lemmas keeps_reads =
  safe_read_byte [THEN safeD] safe_read_short [THEN safeD] safe_read_int [THEN safeD]
  safe_read_long [THEN safeD] safe_read_chars [THEN safeD] safe_read_primitive [THEN safeD]
  safe_stream_read [THEN safeD]

subsection \<open>The decoders\<close>

lemma keeps_return: "hoare (since k h0) (return v) (\<lambda>_. since k h0)"
  by (simp add: hoare_return)

lemma keeps_gets: "hoare (since k h0) (gets f) (\<lambda>_. since k h0)"
  by (simp add: hoare_gets)

lemma keeps_put: "k \<le> a \<Longrightarrow> (\<And>H. elem_ok H e) \<Longrightarrow> hoare (since k h0) (put a e) (\<lambda>_. since k h0)"
  by (rule hoare_put) simp_all

lemma keeps_add_self:
  "self < length (heap h0) \<Longrightarrow> hoare (since k h0) (add_reference (PObj self)) (\<lambda>_. since k h0)"
  by (rule hoare_add_reference) (auto simp: valid_def dest: since_length)

lemma valid_deref: "deref H v = Some e \<Longrightarrow> valid H v"
  by (auto simp: deref_def valid_def split: pyval.splits if_splits)

lemma wf_deref: "wf_state h \<Longrightarrow> deref (heap h) v = Some e \<Longrightarrow> elem_ok (heap h) e"
  by (auto simp: wf_state_def deref_def list_all_length split: pyval.splits if_splits)

lemma valid_unref:
  assumes "wf_state h" "pyclass_of (heap h) v \<noteq> C_other"
  shows "valid (heap h) (unref (heap h) v)"
proof -
  from assms(2) obtain e where e: "deref (heap h) v = Some e"
    by (auto simp: pyclass_of_def split: option.splits)
  show ?thesis
  proof (cases e)
    case (Reference r obj)
    with wf_deref [OF assms(1) e] e show ?thesis by (simp add: unref_def)
  qed (use e valid_deref [OF e] in \<open>simp_all add: unref_def\<close>)
qed

lemma keeps_String_decode:
  assumes "safe dec" "k \<le> self"
  shows "hoare (since k h0) (String_decode dec self) (\<lambda>_. since k h0)"
  unfolding String_decode_def
  by (intro keeps_bind hoare_if keeps_return keeps_put keeps_reads assms)
     simp_all

lemma keeps_LongString_decode:
  assumes "safe dec" "k \<le> self"
  shows "hoare (since k h0) (LongString_decode dec self) (\<lambda>_. since k h0)"
  unfolding LongString_decode_def
  by (intro keeps_bind hoare_if keeps_return keeps_put keeps_reads assms)
     simp_all

lemma safe_inline_String:
  assumes "safe dec"
  shows "safe (inline_String dec)"
  unfolding inline_String_def
proof (rule safeI, rule hoare_alloc)
  fix k h0 a s
  assume "since k h0 s" "length (heap h0) \<le> a"
  then have "k \<le> a" by (simp add: since_def)
  then show "hoare (since k s) (bind (String_decode dec a) (\<lambda>_. gets (\<lambda>h. case deref (heap h) (PObj a) of Some (String c) \<Rightarrow> c | _ \<Rightarrow> []))) (\<lambda>_. since k s)"
    by (intro keeps_bind keeps_String_decode keeps_gets assms)
qed simp

lemma keeps_BlockData_decode:
  assumes "safe dec" "k \<le> self"
  shows "hoare (since k h0) (BlockData_decode dec long self) (\<lambda>_. since k h0)"
  unfolding BlockData_decode_def Let_def
  by (intro keeps_bind hoare_if hoare_raise keeps_return keeps_put keeps_reads assms)
     (auto split: if_splits)

lemma keeps_ClassDesc_decode:
  assumes "safe dec" "k \<le> self"
  shows "hoare (since k h0) (ClassDesc_decode dec self) (\<lambda>_. since k h0)"
  unfolding ClassDesc_decode_def
proof (intro hoare_bind [OF safeD [OF assms(1)]] hoare_bind_gets hoare_if hoare_raise)
  fix v H
  assume c: "\<not> pyclass_of H v \<notin> set [C_Null, C_Reference, C_ProxyClassDesc, C_NewClassDesc]"
  show "hoare (\<lambda>h. since k h0 h \<and> H = heap h) (put self (ClassDesc (unref H v))) (\<lambda>_. since k h0)"
  proof (rule hoare_put [OF assms(2)], intro conjI)
    fix h assume h: "since k h0 h \<and> H = heap h"
    then show "since k h0 h" by simp
    from c h have "pyclass_of (heap h) v \<noteq> C_other" by auto
    with h since_wf [of k h0 h] show "elem_ok (heap h) (ClassDesc (unref H v))"
      by (auto intro: valid_unref)
  qed
qed

lemma safe_getattr_content: "safe (getattr_content v)"
  unfolding getattr_content_def
  by (rule safe_bind [OF safe_gets])
     (simp split: option.split sum.split add: safe_raise safe_return)

lemma safe_getattr_super_class: "safe (getattr_super_class v)"
  unfolding getattr_super_class_def
  by (rule safe_bind [OF safe_gets])
     (simp split: option.split element.split add: safe_raise safe_return)

lemma safe_getattr_fields: "safe (getattr_fields v)"
  unfolding getattr_fields_def
  by (rule safe_bind [OF safe_gets])
     (simp split: option.split element.split add: safe_raise safe_return)

lemma safe_get_class_content: "safe (get_class_content v)"
  unfolding get_class_content_def
  by (intro safe_bind safe_getattr_content safe_if safe_return safe_gets)

lemma keeps_alloc_ClassDesc:
  assumes dec: "safe dec"
    and put: "\<And>a. elem_ok H0 (e a) = True" "\<And>a H. elem_ok H (e a)"
    and f: "\<And>a s. since k h0 s \<Longrightarrow> hoare (since k s) (f a) (\<lambda>_. since k s)"
    and self: "k \<le> self"
  shows "hoare (since k h0)
           (bind (alloc (ClassDesc PNone)) (\<lambda>d.
            bind (put self (e d)) (\<lambda>_.
            bind (ClassDesc_decode dec d) (\<lambda>_. f d))))
           (\<lambda>_. since k h0)"
proof (rule hoare_alloc)
  fix a s
  assume s: "since k h0 s" and "length (heap h0) \<le> a"
  then have "k \<le> a" by (simp add: since_def)
  then show "hoare (since k s)
     (bind (put self (e a)) (\<lambda>_. bind (ClassDesc_decode dec a) (\<lambda>_. f a))) (\<lambda>_. since k s)"
    by (intro keeps_bind keeps_put keeps_ClassDesc_decode dec self put f [OF s])
qed (simp add: valid_def)

lemma keeps_Enum_decode:
  assumes "safe dec" "k \<le> self" "self < length (heap h0)"
  shows "hoare (since k h0) (Enum_decode dec self) (\<lambda>_. since k h0)"
  unfolding Enum_decode_def
proof (rule keeps_alloc_ClassDesc [OF assms(1) _ _ _ assms(2)])
  fix a s
  assume s: "since k h0 s"
  with assms(3) have self: "self < length (heap s)"
    by (auto dest: since_length)
  show "hoare (since k s)
     (bind (add_reference (PObj self)) (\<lambda>_. bind dec (\<lambda>type. bind (gets heap) (\<lambda>H.
        if pyclass_of H type \<notin> set [C_LongString, C_String, C_Reference]
        then raise (Exception ''Invalid type for enum'')
        else bind (getattr_content (unref H type)) (\<lambda>name. put self (Enum (PObj a) name))))))
     (\<lambda>_. since k s)"
    by (intro keeps_bind keeps_add_self self safeD [OF assms(1)] keeps_gets hoare_if hoare_raise
        safeD [OF safe_getattr_content] keeps_put assms(2)) simp
qed simp_all

lemma keeps_Field_decode:
  assumes "safe dec" "k \<le> self"
  shows "hoare (since k h0) (Field_decode dec self) (\<lambda>_. since k h0)"
  unfolding Field_decode_def
  apply (intro keeps_bind keeps_reads assms keeps_put hoare_if hoare_raise)
   apply simp
  apply (simp split: option.split add: hoare_raise)
  apply (intro allI impI keeps_bind safeD [OF safe_inline_String] safeD [OF assms(1)] assms
      keeps_put hoare_if hoare_raise keeps_gets keeps_return)
    apply simp_all
  done

lemma keeps_JavaException_decode:
  assumes "safe dec" "k \<le> self"
  shows "hoare (since k h0) (JavaException_decode dec self) (\<lambda>_. since k h0)"
  unfolding JavaException_decode_def
  by (intro keeps_bind safeD [OF assms(1)] assms keeps_gets keeps_put) simp

lemma safe_NewArray_contents: "safe dec \<Longrightarrow> safe (NewArray_contents dec ty n contents)"
  by (induction n arbitrary: contents)
     (auto intro!: safe_return safe_bind safe_read_primitive safe_gets)

lemma keeps_NewArray_decode:
  assumes "safe dec" "k \<le> self" "self < length (heap h0)"
  shows "hoare (since k h0) (NewArray_decode dec self) (\<lambda>_. since k h0)"
  unfolding NewArray_decode_def Let_def
  apply (intro keeps_bind safeD [OF assms(1)] keeps_gets hoare_if hoare_raise keeps_put assms(2)
      keeps_add_self assms(3))
   apply simp
  apply (simp split: sum.split add: hoare_raise)
  apply (intro allI impI keeps_bind keeps_reads assms(1) keeps_put assms(2)
      safeD [OF safe_NewArray_contents])
     apply simp_all
  done

lemma keeps_NewClass_decode:
  assumes "safe dec" "k \<le> self" "self < length (heap h0)"
  shows "hoare (since k h0) (NewClass_decode dec self) (\<lambda>_. since k h0)"
proof -
  have "hoare (since k h0)
     (bind (alloc (ClassDesc PNone)) (\<lambda>d. bind (put self (NewClass (PObj d))) (\<lambda>_.
        bind (ClassDesc_decode dec d) (\<lambda>_. add_reference (PObj self)))))
     (\<lambda>_. since k h0)"
  proof (rule keeps_alloc_ClassDesc [OF assms(1) _ _ _ assms(2)])
    fix a s
    assume "since k h0 s"
    with assms(3) have "self < length (heap s)" by (auto dest: since_length)
    then show "hoare (since k s) (add_reference (PObj self)) (\<lambda>_. since k s)"
      by (rule keeps_add_self)
  qed simp_all
  then show ?thesis by (simp add: NewClass_decode_def)
qed

lemma safe_NewClassDesc_fields:
  assumes "safe dec"
  shows "safe (NewClassDesc_fields dec n flds)"
proof (induction n arbitrary: flds)
  case 0
  show ?case by (simp add: safe_return)
next
  case (Suc n)
  show ?case
    unfolding NewClassDesc_fields.simps
  proof (rule safeI, rule hoare_alloc)
    fix k h0 a s
    assume "since k h0 s" "length (heap h0) \<le> a"
    then have "k \<le> a" by (simp add: since_def)
    then show "hoare (since k s)
       (bind (Field_decode dec a) (\<lambda>_. NewClassDesc_fields dec n (flds @ [PObj a])))
       (\<lambda>_. since k s)"
      by (intro keeps_bind keeps_Field_decode assms safeD [OF Suc.IH])
  qed simp
qed

lemma since_le: "since k h0 s \<Longrightarrow> length (heap h0) \<le> a \<Longrightarrow> k \<le> a"
  by (simp add: since_def)

lemma keeps_super:
  assumes "safe dec" "k \<le> self"
  shows "hoare (since k h0)
           (bind (alloc (ClassDesc PNone)) (\<lambda>sc.
            bind (put self (NewClassDesc cn uid fl flds (PObj sc))) (\<lambda>_.
            ClassDesc_decode dec sc)))
           (\<lambda>_. since k h0)"
proof (rule hoare_alloc)
  fix a s
  assume s: "since k h0 s" and a: "a < length (heap s)" "length (heap h0) \<le> a"
  have "hoare (since k s) (put self (NewClassDesc cn uid fl flds (PObj a))) (\<lambda>_. since k s)"
  proof (rule hoare_put [OF assms(2)], intro conjI)
    fix h assume h: "since k s h"
    then show "since k s h" .
    from since_length [OF h] a(1) show "elem_ok (heap h) (NewClassDesc cn uid fl flds (PObj a))"
      by (simp add: valid_def)
  qed
  then show "hoare (since k s)
     (bind (put self (NewClassDesc cn uid fl flds (PObj a))) (\<lambda>_. ClassDesc_decode dec a))
     (\<lambda>_. since k s)"
    by (rule hoare_bind) (rule keeps_ClassDesc_decode [OF assms(1) since_le [OF s a(2)]])
qed (simp add: valid_def)

lemma keeps_NewClassDesc_decode:
  assumes "safe dec" "k \<le> self" "self < length (heap h0)"
  shows "hoare (since k h0) (NewClassDesc_decode dec self) (\<lambda>_. since k h0)"
  unfolding NewClassDesc_decode_def
  by (intro keeps_super keeps_bind safeD [OF safe_inline_String] keeps_reads
      safeD [OF safe_NewClassDesc_fields] safeD [OF assms(1)] keeps_put keeps_add_self
      keeps_gets hoare_if hoare_raise assms)
     (simp_all add: valid_def)

lemma safe_read_field_values:
  assumes "safe dec"
  shows "safe (read_field_values dec flds contents)"
proof (induction flds arbitrary: contents)
  case Nil
  show ?case by (simp add: safe_return)
next
  case (Cons field flds)
  show ?case
    unfolding read_field_values.simps
    apply (rule safe_bind [OF safe_gets])
    apply (simp split: option.split element.split add: safe_raise)
    apply (intro allI impI conjI safe_bind safe_gets safe_read_primitive assms Cons.IH)
    done
qed

lemma safe_decode_class_data_body:
  assumes "safe dec" "\<And>c. safe (dcd c)"
  shows "safe (decode_class_data_body dec dcd c)"
  unfolding decode_class_data_body_def
  by (intro safe_if safe_return safe_bind safe_getattr_super_class safe_get_class_content
      safe_getattr_fields safe_read_field_values assms)

lemma keeps_NewObject_decode:
  assumes "safe dec" "\<And>c. safe (dcd c)" "k \<le> self" "self < length (heap h0)"
  shows "hoare (since k h0) (NewObject_decode dec dcd self) (\<lambda>_. since k h0)"
  unfolding NewObject_decode_def
proof (rule keeps_alloc_ClassDesc [OF assms(1) _ _ _ assms(3)])
  fix a s
  assume "since k h0 s"
  with assms(4) have self: "self < length (heap s)" by (auto dest: since_length)
  show "hoare (since k s)
     (bind (add_reference (PObj self)) (\<lambda>_. bind (get_class_content (PObj a)) (\<lambda>new_class_desc.
        bind (dcd new_class_desc) (\<lambda>contents. put self (NewObject (PObj a) contents)))))
     (\<lambda>_. since k s)"
    by (intro keeps_bind keeps_add_self self safeD [OF safe_get_class_content]
        safeD [OF assms(2)] keeps_put assms(3)) simp
qed simp_all

lemma hoare_get_reference:
  "hoare (since k h0) (get_reference r) (\<lambda>obj h. since k h0 h \<and> valid (heap h) obj)"
  by (auto simp: hoare_def get_reference_def Let_def since_def wf_state_def list_all_length
           split: if_splits)

lemma keeps_resolve:
  assumes "k \<le> self"
  shows "hoare (since k h0) (bind (get_reference r) (\<lambda>obj. put self (Reference r obj)))
           (\<lambda>_. since k h0)"
  by (rule hoare_bind [OF hoare_get_reference]) (rule hoare_put [OF assms], simp)

lemma keeps_Reference_decode:
  assumes "safe dec" "k \<le> self"
  shows "hoare (since k h0) (Reference_decode dec self) (\<lambda>_. since k h0)"
  unfolding Reference_decode_def Let_def
  by (intro keeps_resolve keeps_bind keeps_reads assms(1) keeps_put assms(2))
     (simp add: valid_def)

lemma safe_decode_object_body:
  assumes dec: "safe dec" and dcd: "\<And>c. safe (dcd c)"
  shows "safe (decode_object_body dec dcd)"
  unfolding decode_object_body_def
  apply (rule safeI)
  apply (intro hoare_alloc keeps_bind keeps_reads dec hoare_if hoare_raise keeps_return
      keeps_add_self keeps_NewArray_decode keeps_BlockData_decode keeps_NewClass_decode
      keeps_NewClassDesc_decode keeps_Enum_decode keeps_JavaException_decode
      keeps_LongString_decode keeps_NewObject_decode keeps_Reference_decode
      keeps_String_decode dcd)
  apply (simp_all add: valid_def since_le)
  done

lemma safe_decode: "safe (decode_object n) \<and> (\<forall>c. safe (decode_class_data n c))"
proof (induction n)
  case 0
  show ?case by (simp add: decode_object.simps safe_fuel)
next
  case (Suc n)
  then show ?case
    by (simp add: decode_object.simps safe_decode_object_body safe_decode_class_data_body)
qed

lemmas safe_decode_object = safe_decode [THEN conjunct1]

lemma safe_decode_class_data: "safe (decode_class_data n c)"
  using safe_decode by blast

subsection \<open>Runs\<close>

lemma step_since: "step h h' \<Longrightarrow> since 0 h0 h \<Longrightarrow> since 0 h0 h'"
proof (induction rule: step.induct)
  case (step_decode_object n h v h')
  from safeD [OF safe_decode_object] this(2,1) show ?case by (rule hoareD)
next
  case (step_decode_class_data n c h vs h')
  from safeD [OF safe_decode_class_data] this(2,1) show ?case by (rule hoareD)
next
  case (step_read_struct n unpack h vs h')
  from safeD [OF safe_read_struct [OF safe_decode_object]] this(2,1) show ?case by (rule hoareD)
next
  case (step_refill n h u h')
  from safeD [OF safe_refill [OF safe_decode_object]] this(2,1) show ?case by (rule hoareD)
next
  case (step_set_block_data_mode newmode h v h')
  from safeD [OF safe_set_block_data_mode] this(2,1) show ?case by (rule hoareD)
next
  case (step_skip i h u h')
  from this(1,2) show ?case by (rule skip_since)
next
  case (step_add_reference r h u h')
  have "hoare (\<lambda>x. x = h) (add_reference r) (\<lambda>_. since 0 h0)"
    by (rule hoare_add_reference) (use step_add_reference in simp)
  then show ?case using refl step_add_reference(1) by (rule hoareD)
next
  case (step_alloc e h a h')
  then have h': "h' = h\<lparr>heap := heap h @ [e]\<rparr>" by (simp add: alloc_def)
  with step_alloc show ?case by (auto intro: since_alloc)
next
  case (step_put a e h u h')
  then have h': "h' = h\<lparr>heap := (heap h)[a := e]\<rparr>" by (simp add: put_def modify_def)
  with step_put show ?case by (auto intro: since_put)
qed

lemma later_since: "later h h' \<Longrightarrow> wf_state h \<Longrightarrow> since 0 h h'"
  by (induction rule: later.induct) (auto intro: since_refl step_since)

lemma since_nth_reference:
  assumes "since k h0 h" "i < length (references h0)"
  shows "i < length (references h) \<and> references h ! i = references h0 ! i"
proof -
  from assms(1) obtain zs where "references h = references h0 @ zs"
    by (auto simp: since_def prefix_def)
  with assms(2) show ?thesis by (simp add: nth_append)
qed

section \<open>The stream header\<close>

text \<open>
  C3. On construction the decoder reads a four-byte header and is to fail with a
  header-mismatch error when the magic is not \<open>0xACED\<close> or the version is not 5. The
  code reads the two values and stores them in the \<^verbatim>\<open>Header\<close> object without
  comparing them (the comment in \<^verbatim>\<open>Handler.__init__\<close> says "Check header"): on the
  stream \<open>00 00 00 00 70\<close> the handler is constructed, its header holds magic 0 and
  version 0, and the next \<^verbatim>\<open>read_object\<close> returns a \<^verbatim>\<open>Null\<close> record.
\<close>

theorem header_not_compared:
  "on_stream False [0x00, 0x00, 0x00, 0x00, 0x70] (read_objects 1 1) =
     Return [PObj 1]
       \<lparr>io = \<lparr>buf = [0x00, 0x00, 0x00, 0x00, 0x70], cur = 5\<rparr>, pos = 5, endp = 0,
        block_mode = False, block_data = PNone, references = [], header = PObj 0,
        heap = [Header 0 0, Null], struct_complex = False\<rparr>"
  by (simp add: exec dec_defs tc_defs)

section \<open>Back-references\<close>

text \<open>
  C4. A \<^verbatim>\<open>TC_REFERENCE\<close> whose operand does not index an assigned handle, operands below
  \<open>BASE\<close> included, is to fail. \<^verbatim>\<open>get_reference\<close> indexes the Python list with
  \<open>operand - BASE\<close>, and a negative index counts from the end of the list: after one
  string has been assigned handle 0, the operand \<open>0x7DFFFF = BASE - 1\<close> gives index
  \<open>-1\<close> and resolves to that string instead of raising.
\<close>

theorem reference_below_base_resolves:
  "on_stream False
     [0xAC, 0xED, 0x00, 0x05, 0x74, 0x00, 0x01, 0x41, 0x71, 0x00, 0x7D, 0xFF, 0xFF]
     (read_objects 1 2) =
     Return [PObj 1, PObj 2]
       \<lparr>io = \<lparr>buf = [0xAC, 0xED, 0x00, 0x05, 0x74, 0x00, 0x01, 0x41, 0x71, 0x00, 0x7D,
                      0xFF, 0xFF], cur = 13\<rparr>,
        pos = 13, endp = 0, block_mode = False, block_data = PNone,
        references = [PObj 1], header = PObj 0,
        heap = [Header 0xACED 5, String ''A'', Reference (- 1) (PObj 1)],
        struct_complex = False\<rparr>"
  by (simp add: exec dec_defs tc_defs)

text \<open>
  C2. The \<open>n\<close>-th record that assigns a handle is retrievable by a later \<^verbatim>\<open>TC_REFERENCE\<close>
  whose operand is \<open>BASE + n\<close>. A record is assigned its handle by \<^verbatim>\<open>add_reference\<close>,
  which appends it to the handle table: from a well-formed state \<open>h0\<close> with \<open>n\<close>
  handles assigned, the object \<open>a\<close> gets handle \<open>n\<close>. However the run goes on from
  there, when it comes to read the tag \<^verbatim>\<open>TC_REFERENCE\<close> and then the operand
  \<open>BASE + n\<close>, tag dispatch returns a \<^verbatim>\<open>Reference\<close> record whose \<^verbatim>\<open>ref\<close> is \<open>n\<close> and
  whose \<^verbatim>\<open>obj\<close> is the object \<open>a\<close> itself.
\<close>

theorem handle_retrievable:
  assumes wf: "wf_state h0" and a: "a < length (heap h0)"
    and add: "add_reference (PObj a) h0 = Return () h1"
    and later: "later h1 h"
    and tag: "read_byte (decode_object m) h = Return TC_REFERENCE h2"
    and operand: "read_int (decode_object m) (h2\<lparr>heap := heap h2 @ [Reference 0 PNone]\<rparr>) =
                   Return (BASE_WIRE_HANDLE + int (length (references h0))) h3"
  shows "decode_object (Suc m) h =
           Return (PObj (length (heap h2)))
             (h3\<lparr>heap := (heap h3)[length (heap h2) :=
                     Reference (int (length (references h0))) (PObj a)]\<rparr>)"
proof -
  let ?n = "length (references h0)"
  from add have h1: "h1 = h0\<lparr>references := references h0 @ [PObj a]\<rparr>"
    by (simp add: add_reference_def modify_def)
  have "hoare (\<lambda>x. x = h0) (add_reference (PObj a)) (\<lambda>_. since 0 h0)"
    by (rule hoare_add_reference) (use wf a in \<open>simp add: since_refl valid_def\<close>)
  then have "since 0 h0 h1" using refl add by (rule hoareD)
  then have wf1: "wf_state h1" by (rule since_wf)
  from later wf1 have "since 0 h1 h" by (rule later_since)
  with safeD [OF safe_read_byte [OF safe_decode_object]] have "since 0 h1 h2"
    using tag by (rule hoareD)
  then have "since 0 h1 (h2\<lparr>heap := heap h2 @ [Reference 0 PNone]\<rparr>)"
    by (rule since_alloc) (simp add: valid_def)
  with safeD [OF safe_read_int [OF safe_decode_object]] have "since 0 h1 h3"
    using operand by (rule hoareD)
  moreover have "?n < length (references h1)" "references h1 ! ?n = PObj a"
    by (simp_all add: h1)
  ultimately have n: "?n < length (references h3)" "references h3 ! ?n = PObj a"
    using since_nth_reference [of 0 h1 h3 ?n] by simp_all
  show ?thesis
    using tag operand n
    by (simp add: decode_object_Suc decode_object_body_def bind_apply tc_defs alloc_apply
        return_apply Reference_decode_def put_apply get_reference_def Let_def)
qed

text \<open>
  The stream of the claim, \<open>AC ED 00 05 74 00 01 41 71 00 7E 00 00\<close>: the state in which
  the string \<open>A\<close> is assigned handle 0, the reference that follows, and the two records
  of the whole stream.
\<close>

theorem handle_retrievable_witness:
  "wf_state
     ((opened False [0x74, 0x00, 0x01, 0x41, 0x71, 0x00, 0x7E, 0x00, 0x00])
        \<lparr>io := \<lparr>buf = [0xAC, 0xED, 0x00, 0x05, 0x74, 0x00, 0x01, 0x41, 0x71, 0x00, 0x7E,
                       0x00, 0x00], cur = 8\<rparr>,
         pos := 8, heap := [Header 0xACED 5, String ''A'']\<rparr>)
   \<and> decode_object (Suc 0)
       ((opened False [0x74, 0x00, 0x01, 0x41, 0x71, 0x00, 0x7E, 0x00, 0x00])
          \<lparr>io := \<lparr>buf = [0xAC, 0xED, 0x00, 0x05, 0x74, 0x00, 0x01, 0x41, 0x71, 0x00, 0x7E,
                         0x00, 0x00], cur = 8\<rparr>,
           pos := 8, heap := [Header 0xACED 5, String ''A''], references := [PObj 1]\<rparr>) =
       Return (PObj 2)
         ((opened False [0x74, 0x00, 0x01, 0x41, 0x71, 0x00, 0x7E, 0x00, 0x00])
            \<lparr>io := \<lparr>buf = [0xAC, 0xED, 0x00, 0x05, 0x74, 0x00, 0x01, 0x41, 0x71, 0x00, 0x7E,
                           0x00, 0x00], cur = 13\<rparr>,
             pos := 13, heap := [Header 0xACED 5, String ''A'', Reference 0 (PObj 1)],
             references := [PObj 1]\<rparr>)
   \<and> on_stream False
       [0xAC, 0xED, 0x00, 0x05, 0x74, 0x00, 0x01, 0x41, 0x71, 0x00, 0x7E, 0x00, 0x00]
       (read_objects 1 2) =
       Return [PObj 1, PObj 2]
         ((opened False [0x74, 0x00, 0x01, 0x41, 0x71, 0x00, 0x7E, 0x00, 0x00])
            \<lparr>io := \<lparr>buf = [0xAC, 0xED, 0x00, 0x05, 0x74, 0x00, 0x01, 0x41, 0x71, 0x00, 0x7E,
                           0x00, 0x00], cur = 13\<rparr>,
             pos := 13, heap := [Header 0xACED 5, String ''A'', Reference 0 (PObj 1)],
             references := [PObj 1]\<rparr>)"
proof -
  let ?B = "[0xAC, 0xED, 0x00, 0x05, 0x74, 0x00, 0x01, 0x41, 0x71, 0x00, 0x7E, 0x00, 0x00] :: byte list"
  let ?h0 = "(opened False [0x74, 0x00, 0x01, 0x41, 0x71, 0x00, 0x7E, 0x00, 0x00])
        \<lparr>io := \<lparr>buf = ?B, cur = 8\<rparr>, pos := 8, heap := [Header 0xACED 5, String ''A'']\<rparr>"
  let ?h1 = "?h0\<lparr>references := [PObj 1]\<rparr>"
  let ?h2 = "?h1\<lparr>io := \<lparr>buf = ?B, cur = 9\<rparr>, pos := 9\<rparr>"
  let ?h3 = "?h1\<lparr>io := \<lparr>buf = ?B, cur = 13\<rparr>, pos := 13,
                 heap := [Header 0xACED 5, String ''A'', Reference 0 PNone]\<rparr>"
  have wf: "wf_state ?h0"
    by (simp add: wf_state_def opened_def)
  have a: "1 < length (heap ?h0)"
    by simp
  have add: "add_reference (PObj 1) ?h0 = Return () ?h1"
    by (simp add: exec opened_def)
  have later: "later ?h1 ?h1"
    by (rule later_refl)
  have tag: "read_byte (decode_object 0) ?h1 = Return TC_REFERENCE ?h2"
    by (simp add: exec dec_defs tc_defs)
  have operand: "read_int (decode_object 0) (?h2\<lparr>heap := heap ?h2 @ [Reference 0 PNone]\<rparr>) =
      Return (BASE_WIRE_HANDLE + int (length (references ?h0))) ?h3"
    by (simp add: exec dec_defs tc_defs)
  have all: "on_stream False ?B (read_objects 1 2) =
      Return [PObj 1, PObj 2]
        (?h1\<lparr>io := \<lparr>buf = ?B, cur = 13\<rparr>, pos := 13,
              heap := [Header 0xACED 5, String ''A'', Reference 0 (PObj 1)]\<rparr>)"
    by (simp add: exec dec_defs tc_defs)
  from handle_retrievable [OF wf a add later tag operand] wf all show ?thesis
    by (simp add: opened_def)
qed

section \<open>Tag dispatch: the proxy descriptor and unknown tags\<close>

text \<open>
  C5, as the claim states it: a well-formed proxy descriptor would decode to a
  \<^verbatim>\<open>ProxyClassDesc\<close> record. It does not: the proxy descriptor with no interface, an
  empty annotation and a null super descriptor raises.
\<close>

theorem proxy_descriptor_counterexample:
  "on_stream False [0xAC, 0xED, 0x00, 0x05, 0x7D, 0x00, 0x00, 0x00, 0x00, 0x78, 0x70]
     (read_objects 1 1) =
     Raise (Exception ''TC_PROXYCLASSDESC not supported'')
       \<lparr>io = \<lparr>buf = [0xAC, 0xED, 0x00, 0x05, 0x7D, 0x00, 0x00, 0x00, 0x00, 0x78, 0x70],
               cur = 5\<rparr>,
        pos = 5, endp = 0, block_mode = False, block_data = PNone, references = [],
        header = PObj 0, heap = [Header 0xACED 5], struct_complex = False\<rparr>"
  by (simp add: exec dec_defs tc_defs)

text \<open>A read of one byte in stream mode moves the cursor of the stream and nothing else.\<close>

lemma stream_read_byte:
  assumes "read_byte dec h = Return v h'" and "\<not> block_mode h"
  shows "h' = h\<lparr>io := (io h)\<lparr>cur := cur (io h) + 1\<rparr>, pos := pos h + 1\<rparr>"
  using assms
  by (auto simp: read_byte_def read_struct_def bind_apply gets_apply raise_apply return_apply
        modify_apply stream_read_def bio_read_def Let_def
      split: option.splits result.splits if_splits pyval.splits)

text \<open>
  C5, amended: whenever the tag byte read is \<open>0x7D\<close>, tag dispatch raises
  "TC_PROXYCLASSDESC not supported", and the handler at the raise is the one the read of
  the tag byte left: nothing is read after the tag byte, no \<^verbatim>\<open>ProxyClassDesc\<close> is constructed
  and no handle is assigned. In stream mode that handler is the one of the call with the
  cursor one byte further on, the store and the handle table being the same.
\<close>

theorem proxy_descriptor_rejected:
  "read_byte (decode_object n) h = Return TC_PROXYCLASSDESC h' \<Longrightarrow>
   decode_object (Suc n) h = Raise (Exception ''TC_PROXYCLASSDESC not supported'') h'
   \<and> (\<not> block_mode h \<longrightarrow>
        h' = h\<lparr>io := (io h)\<lparr>cur := cur (io h) + 1\<rparr>, pos := pos h + 1\<rparr>
        \<and> heap h' = heap h \<and> references h' = references h)"
proof (intro conjI impI)
  assume rd: "read_byte (decode_object n) h = Return TC_PROXYCLASSDESC h'"
  then show "decode_object (Suc n) h = Raise (Exception ''TC_PROXYCLASSDESC not supported'') h'"
    by (auto simp: decode_object.simps decode_object_body_def bind_def tc_defs raise_def)
  assume "\<not> block_mode h"
  with rd have h': "h' = h\<lparr>io := (io h)\<lparr>cur := cur (io h) + 1\<rparr>, pos := pos h + 1\<rparr>"
    by (rule stream_read_byte)
  then show "h' = h\<lparr>io := (io h)\<lparr>cur := cur (io h) + 1\<rparr>, pos := pos h + 1\<rparr>" .
  from h' show "heap h' = heap h" by simp
  from h' show "references h' = references h" by simp
qed

theorem proxy_descriptor_rejected_witness:
  "read_byte (decode_object 0) (opened False [0x7D, 0x00, 0x00, 0x00, 0x00, 0x78, 0x70]) =
     Return TC_PROXYCLASSDESC
       ((opened False [0x7D, 0x00, 0x00, 0x00, 0x00, 0x78, 0x70])
          \<lparr>io := \<lparr>buf = [0xAC, 0xED, 0x00, 0x05, 0x7D, 0x00, 0x00, 0x00, 0x00, 0x78, 0x70],
                  cur = 5\<rparr>, pos := 5\<rparr>)
   \<and> decode_object (Suc 0) (opened False [0x7D, 0x00, 0x00, 0x00, 0x00, 0x78, 0x70]) =
     Raise (Exception ''TC_PROXYCLASSDESC not supported'')
       ((opened False [0x7D, 0x00, 0x00, 0x00, 0x00, 0x78, 0x70])
          \<lparr>io := \<lparr>buf = [0xAC, 0xED, 0x00, 0x05, 0x7D, 0x00, 0x00, 0x00, 0x00, 0x78, 0x70],
                  cur = 5\<rparr>, pos := 5\<rparr>)
   \<and> \<not> block_mode (opened False [0x7D, 0x00, 0x00, 0x00, 0x00, 0x78, 0x70])
   \<and> heap ((opened False [0x7D, 0x00, 0x00, 0x00, 0x00, 0x78, 0x70])
          \<lparr>io := \<lparr>buf = [0xAC, 0xED, 0x00, 0x05, 0x7D, 0x00, 0x00, 0x00, 0x00, 0x78, 0x70],
                  cur = 5\<rparr>, pos := 5\<rparr>) = [Header 0xACED 5]
   \<and> references ((opened False [0x7D, 0x00, 0x00, 0x00, 0x00, 0x78, 0x70])
          \<lparr>io := \<lparr>buf = [0xAC, 0xED, 0x00, 0x05, 0x7D, 0x00, 0x00, 0x00, 0x00, 0x78, 0x70],
                  cur = 5\<rparr>, pos := 5\<rparr>) = []"
proof -
  let ?h = "opened False [0x7D, 0x00, 0x00, 0x00, 0x00, 0x78, 0x70]"
  let ?h' = "?h\<lparr>io := \<lparr>buf = [0xAC, 0xED, 0x00, 0x05, 0x7D, 0x00, 0x00, 0x00, 0x00, 0x78, 0x70],
                  cur = 5\<rparr>, pos := 5\<rparr>"
  have rd: "read_byte (decode_object 0) ?h = Return TC_PROXYCLASSDESC ?h'"
    by (simp add: exec dec_defs tc_defs)
  have sm: "\<not> block_mode ?h"
    by (simp add: opened_def)
  from proxy_descriptor_rejected [OF rd] sm
  have "decode_object (Suc 0) ?h = Raise (Exception ''TC_PROXYCLASSDESC not supported'') ?h'"
    and "heap ?h' = heap ?h" and "references ?h' = references ?h"
    by blast+
  with rd sm show ?thesis
    by (simp add: opened_def)
qed

text \<open>
  C7, as the claim states it: a nonzero tag outside \<open>0x70 .. 0x7E\<close> would make tag
  dispatch fail. On the tag \<open>0x01\<close> it returns \<^verbatim>\<open>None\<close> instead.
\<close>

theorem unknown_tag_counterexample:
  "on_stream False [0xAC, 0xED, 0x00, 0x05, 0x01] (read_objects 1 1) =
     Return [PNone]
       \<lparr>io = \<lparr>buf = [0xAC, 0xED, 0x00, 0x05, 0x01], cur = 5\<rparr>, pos = 5, endp = 0,
        block_mode = False, block_data = PNone, references = [], header = PObj 0,
        heap = [Header 0xACED 5], struct_complex = False\<rparr>"
  by (simp add: exec dec_defs tc_defs)

text \<open>
  C7, amended: for every tag byte that is nonzero and not in \<open>0x70 .. 0x7E\<close>, tag
  dispatch raises nothing and produces no record: it returns \<^verbatim>\<open>None\<close>, in the state the
  read of the tag byte left.
\<close>

theorem unknown_tag_returns_None:
  "read_byte (decode_object n) h = Return tc h' \<Longrightarrow> tc \<noteq> 0 \<Longrightarrow> tc < 0x70 \<or> 0x7E < tc \<Longrightarrow>
   decode_object (Suc n) h = Return PNone h'"
  by (auto simp: decode_object.simps decode_object_body_def bind_def tc_defs return_def)

theorem unknown_tag_returns_None_witness:
  "read_byte (decode_object 0) (opened False [0x01]) =
     Return 1 ((opened False [0x01])
                 \<lparr>io := \<lparr>buf = [0xAC, 0xED, 0x00, 0x05, 0x01], cur = 5\<rparr>, pos := 5\<rparr>)
   \<and> (1::int) \<noteq> 0 \<and> ((1::int) < 0x70 \<or> 0x7E < (1::int))
   \<and> decode_object (Suc 0) (opened False [0x01]) =
     Return PNone ((opened False [0x01])
                 \<lparr>io := \<lparr>buf = [0xAC, 0xED, 0x00, 0x05, 0x01], cur = 5\<rparr>, pos := 5\<rparr>)"
proof -
  have rd: "read_byte (decode_object 0) (opened False [0x01]) =
     Return 1 ((opened False [0x01])
                 \<lparr>io := \<lparr>buf = [0xAC, 0xED, 0x00, 0x05, 0x01], cur = 5\<rparr>, pos := 5\<rparr>)"
    by (simp add: exec dec_defs tc_defs)
  have "(1::int) \<noteq> 0" and "(1::int) < 0x70 \<or> 0x7E < (1::int)"
    by simp_all
  with rd unknown_tag_returns_None [OF rd] show ?thesis
    by simp
qed

section \<open>Wide primitives\<close>

text \<open>
  \<^verbatim>\<open>read_char\<close> unpacks the two values of \<^verbatim>\<open>read_struct(">ss")\<close> into a single target,
  which Python refuses: whatever the handler and the bytes, the call never returns.
\<close>

lemma read_char_never_returns: "read_char dec h \<noteq> Return v h'"
  by (auto simp: read_char_def read_struct_def bind_def gets_def raise_def return_def modify_def
           split: option.splits result.splits if_splits)

text \<open>
  C8. With two bytes available \<^verbatim>\<open>read_char\<close> is to return the big-endian 16-bit code
  unit. On the bytes \<open>00 41\<close> in stream mode the code reads both bytes and then raises
  \<^verbatim>\<open>ValueError\<close> instead of returning \<open>0x0041\<close>.
\<close>

theorem read_char_raises:
  "on_stream False [0xAC, 0xED, 0x00, 0x05, 0x00, 0x41] (read_char (decode_object 1)) =
     Raise ValueError
       \<lparr>io = \<lparr>buf = [0xAC, 0xED, 0x00, 0x05, 0x00, 0x41], cur = 6\<rparr>, pos = 6, endp = 0,
          block_mode = False, block_data = PNone, references = [], header = PObj 0,
          heap = [Header 0xACED 5],
          struct_complex = False\<rparr>"
  by (simp add: exec dec_defs tc_defs)

text \<open>
  C1. Every primitive read is to return in block mode what it returns in stream mode,
  the multi-byte ones being composed of two reads of half the width. \<^verbatim>\<open>read_short\<close>,
  \<^verbatim>\<open>read_int\<close> and \<^verbatim>\<open>read_long\<close> are composed that way; \<^verbatim>\<open>read_char\<close>, \<^verbatim>\<open>read_float\<close>
  and \<^verbatim>\<open>read_double\<close> issue one \<^verbatim>\<open>read_struct\<close> of the full width.
  \<^item> \<^verbatim>\<open>read_char\<close> over the frames \<open>77 01 00\<close>, \<open>77 01 41\<close>: the frame adopted by the
    refill holds one byte, and the call raises \<^verbatim>\<open>EOFError\<close>; on the same two bytes in
    stream mode it raises \<^verbatim>\<open>ValueError\<close>.
  \<^item> \<^verbatim>\<open>read_float\<close>, where \<^verbatim>\<open>struct\<close> knows the format \<^verbatim>\<open>F\<close> (8 bytes): over two frames
    of four bytes it raises \<^verbatim>\<open>EOFError\<close>, while the same eight bytes in stream mode are
    returned as one value; where \<^verbatim>\<open>struct\<close> does not know \<^verbatim>\<open>F\<close>, the call raises
    \<^verbatim>\<open>struct.error\<close>.
\<close>

theorem wide_reads_not_composed:
  "on_stream False [0xAC, 0xED, 0x00, 0x05, 0x77, 0x01, 0x00, 0x77, 0x01, 0x41]
     (bind (set_block_data_mode True) (\<lambda>_. read_char (decode_object 1))) =
       Raise EOFError
         \<lparr>io = \<lparr>buf = [0xAC, 0xED, 0x00, 0x05, 0x77, 0x01, 0x00, 0x77, 0x01, 0x41], cur = 7\<rparr>, pos = 0, endp = 1,
          block_mode = True, block_data = PObj 1, references = [], header = PObj 0,
          heap = [Header 0xACED 5, BlockData 1 [0x00] (Some \<lparr>buf = [0x00], cur = 1\<rparr>)],
          struct_complex = False\<rparr>
   \<and> on_stream False [0xAC, 0xED, 0x00, 0x05, 0x00, 0x41] (read_char (decode_object 1)) =
       Raise ValueError
         \<lparr>io = \<lparr>buf = [0xAC, 0xED, 0x00, 0x05, 0x00, 0x41], cur = 6\<rparr>, pos = 6, endp = 0,
          block_mode = False, block_data = PNone, references = [], header = PObj 0,
          heap = [Header 0xACED 5],
          struct_complex = False\<rparr>
   \<and> on_stream True
       [0xAC, 0xED, 0x00, 0x05, 0x77, 0x04, 0x3F, 0x80, 0x00, 0x00, 0x77, 0x04, 0x00, 0x00,
        0x00, 0x00]
       (bind (set_block_data_mode True) (\<lambda>_. read_float (decode_object 1))) =
       Raise EOFError
         \<lparr>io = \<lparr>buf = [0xAC, 0xED, 0x00, 0x05, 0x77, 0x04, 0x3F, 0x80, 0x00, 0x00, 0x77, 0x04,
                         0x00, 0x00, 0x00, 0x00], cur = 10\<rparr>, pos = 0, endp = 4,
          block_mode = True, block_data = PObj 1, references = [], header = PObj 0,
          heap = [Header 0xACED 5,
                  BlockData 4 [0x3F, 0x80, 0x00, 0x00]
                    (Some \<lparr>buf = [0x3F, 0x80, 0x00, 0x00], cur = 4\<rparr>)],
          struct_complex = True\<rparr>
   \<and> on_stream True [0xAC, 0xED, 0x00, 0x05, 0x3F, 0x80, 0x00, 0x00, 0x00, 0x00, 0x00, 0x00]
       (read_float (decode_object 1)) =
       Return (PComplex [0x3F, 0x80, 0x00, 0x00, 0x00, 0x00, 0x00, 0x00])
         ((opened True [0x3F, 0x80, 0x00, 0x00, 0x00, 0x00, 0x00, 0x00])
            \<lparr>io := \<lparr>buf = [0xAC, 0xED, 0x00, 0x05, 0x3F, 0x80, 0x00, 0x00, 0x00, 0x00, 0x00,
                           0x00], cur = 12\<rparr>, pos := 12\<rparr>)
   \<and> on_stream False [0xAC, 0xED, 0x00, 0x05, 0x3F, 0x80, 0x00, 0x00]
       (read_float (decode_object 1)) =
       Raise StructError
         \<lparr>io = \<lparr>buf = [0xAC, 0xED, 0x00, 0x05, 0x3F, 0x80, 0x00, 0x00], cur = 4\<rparr>, pos = 4, endp = 0,
          block_mode = False, block_data = PNone, references = [], header = PObj 0,
          heap = [Header 0xACED 5],
          struct_complex = False\<rparr>"
  by (simp add: exec dec_defs tc_defs)

text \<open>The composed sibling on the frames of the first case: the short straddles the refill.\<close>

lemma read_short_straddles:
  "on_stream False [0xAC, 0xED, 0x00, 0x05, 0x77, 0x01, 0x00, 0x77, 0x01, 0x41]
     (bind (set_block_data_mode True) (\<lambda>_. read_short (decode_object 1))) =
     Return 0x41
       \<lparr>io = \<lparr>buf = [0xAC, 0xED, 0x00, 0x05, 0x77, 0x01, 0x00, 0x77, 0x01, 0x41], cur = 10\<rparr>,
        pos = 1, endp = 1, block_mode = True, block_data = PObj 2, references = [],
        header = PObj 0,
        heap = [Header 0xACED 5, BlockData 1 [0x00] (Some \<lparr>buf = [0x00], cur = 1\<rparr>),
                BlockData 1 [0x41] (Some \<lparr>buf = [0x41], cur = 1\<rparr>)],
        struct_complex = False\<rparr>"
  by (simp add: exec dec_defs tc_defs)

section \<open>Arrays\<close>

text \<open>
  C9, as the claim states it: a \<^verbatim>\<open>TC_ARRAY\<close> whose descriptor is not a \<^verbatim>\<open>NewClassDesc\<close>
  named \<open>[...\<close> would fail. The array below has the descriptor of a class named \<open>X\<close>
  and size 0; it decodes to a \<^verbatim>\<open>NewArray\<close> whose \<^verbatim>\<open>type\<close> is \<^verbatim>\<open>False\<close>.
\<close>

theorem array_descriptor_counterexample:
  "on_stream False
     [0xAC, 0xED, 0x00, 0x05, 0x75, 0x72, 0x00, 0x01, 0x58, 0x00, 0x00, 0x00, 0x00, 0x00,
      0x00, 0x00, 0x00, 0x02, 0x00, 0x00, 0x78, 0x70, 0x00, 0x00, 0x00, 0x00]
     (read_objects 3 1) =
     Return [PObj 1]
       \<lparr>io = \<lparr>buf = [0xAC, 0xED, 0x00, 0x05, 0x75, 0x72, 0x00, 0x01, 0x58, 0x00, 0x00, 0x00,
                      0x00, 0x00, 0x00, 0x00, 0x00, 0x02, 0x00, 0x00, 0x78, 0x70, 0x00, 0x00,
                      0x00, 0x00], cur = 26\<rparr>,
        pos = 26, endp = 0, block_mode = False, block_data = PNone,
        references = [PObj 2, PObj 1], header = PObj 0,
        heap = [Header 0xACED 5, NewArray (PObj 2) 0 (PBool False) [],
                NewClassDesc ''X'' 0 2 [] (PObj 5), String ''X'', EndBlockData,
                ClassDesc (PObj 6), Null],
        struct_complex = False\<rparr>"
  by (simp add: exec dec_defs tc_defs)

text \<open>
  A descriptor that is no \<^verbatim>\<open>NewClassDesc\<close>, or whose class name is empty or does not begin
  with \<open>[\<close>, gives the element type \<^verbatim>\<open>False\<close>; and the assignment to the array itself does
  not turn another object into a \<^verbatim>\<open>NewClassDesc\<close>.
\<close>

lemma array_type_not_array:
  assumes nm: "\<forall>cn uid fl fs sc. deref H ncd = Some (NewClassDesc cn uid fl fs sc) \<longrightarrow>
                cn = [] \<or> hd cn \<noteq> CHR ''[''"
  shows "array_type H ncd = Inr (PBool False)"
proof (cases "deref H ncd")
  case None
  then show ?thesis by (simp add: array_type_def)
next
  case (Some e)
  show ?thesis
  proof (cases e)
    case (NewClassDesc cn uid fl fs sc)
    with Some nm have "cn = [] \<or> hd cn \<noteq> CHR ''[''" by simp
    with Some NewClassDesc show ?thesis
      by (auto simp: array_type_def OBJECT_TYPES_def split: list.splits)
  qed (use Some in \<open>simp_all add: array_type_def\<close>)
qed

lemma deref_update_NewClassDesc:
  assumes "deref (H[self := NewArray a b c d]) v = Some (NewClassDesc cn uid fl fs sc)"
  shows "deref H v = Some (NewClassDesc cn uid fl fs sc)"
  using assms
  by (cases v; cases "v = PObj self") (auto simp: deref_def split: if_splits)

text \<open>
  C9, amended: decoding a \<^verbatim>\<open>TC_ARRAY\<close> record fails with an error when the record decoded
  in descriptor position is neither a \<^verbatim>\<open>NewClassDesc\<close> nor a \<^verbatim>\<open>Reference\<close>, the handler
  being the one the descriptor left. When it is one of the two and the resolved
  descriptor is not a \<^verbatim>\<open>NewClassDesc\<close>, or its class name is empty or does not begin with
  \<open>[\<close>, no error is raised for that: the array is given a handle and the element type
  \<^verbatim>\<open>False\<close>, its size is read, and the decoder goes on to read that many elements, each
  by one tag dispatch (an element that is a \<^verbatim>\<open>Reference\<close> is replaced by its target), and
  stores them.
\<close>

theorem array_descriptor_check:
  "(dec h = Return cd h1 \<and> pyclass_of (heap h1) cd \<notin> {C_NewClassDesc, C_Reference} \<longrightarrow>
      NewArray_decode dec self h = Raise (Exception ''Invalid type for class desc'') h1)
   \<and> (dec h = Return cd h1 \<and> pyclass_of (heap h1) cd \<in> {C_NewClassDesc, C_Reference}
       \<and> ncd = unref (heap h1) cd
       \<and> (\<forall>cn uid fl fs sc. deref (heap h1) ncd = Some (NewClassDesc cn uid fl fs sc) \<longrightarrow>
            cn = [] \<or> hd cn \<noteq> CHR ''['') \<longrightarrow>
      NewArray_decode dec self h =
        bind (read_int dec) (\<lambda>size.
        bind (put self (NewArray ncd size (PBool False) [])) (\<lambda>_.
        bind (NewArray_contents dec (PBool False) (nat size) []) (\<lambda>contents.
        put self (NewArray ncd size (PBool False) contents))))
          (h1\<lparr>heap := (heap h1)[self := NewArray ncd 0 (PBool False) []],
              references := references h1 @ [PObj self]\<rparr>))
   \<and> NewArray_contents dec (PBool False) 0 contents = return contents
   \<and> NewArray_contents dec (PBool False) (Suc i) contents =
       bind dec (\<lambda>content.
       bind (gets heap) (\<lambda>H.
       NewArray_contents dec (PBool False) i (contents @ [unref H content])))"
proof (intro conjI impI)
  assume "dec h = Return cd h1 \<and> pyclass_of (heap h1) cd \<notin> {C_NewClassDesc, C_Reference}"
  then show "NewArray_decode dec self h = Raise (Exception ''Invalid type for class desc'') h1"
    by (simp add: NewArray_decode_def bind_apply gets_apply raise_apply)
next
  assume A: "dec h = Return cd h1 \<and> pyclass_of (heap h1) cd \<in> {C_NewClassDesc, C_Reference}
       \<and> ncd = unref (heap h1) cd
       \<and> (\<forall>cn uid fl fs sc. deref (heap h1) ncd = Some (NewClassDesc cn uid fl fs sc) \<longrightarrow>
            cn = [] \<or> hd cn \<noteq> CHR ''['')"
  let ?H1 = "(heap h1)[self := NewArray ncd 0 (PStr []) []]"
  from A have "\<forall>cn uid fl fs sc. deref ?H1 ncd = Some (NewClassDesc cn uid fl fs sc) \<longrightarrow>
            cn = [] \<or> hd cn \<noteq> CHR ''[''"
    using deref_update_NewClassDesc by blast
  then have ty: "array_type ?H1 ncd = Inr (PBool False)"
    by (rule array_type_not_array)
  have eq: "h1\<lparr>heap := (heap h1)[self := NewArray ncd 0 (PBool False) []],
              references := references h1 @ [PObj self]\<rparr> =
            h1\<lparr>references := references h1 @ [PObj self],
              heap := (heap h1)[self := NewArray ncd 0 (PBool False) []]\<rparr>"
    by simp
  from A ty show "NewArray_decode dec self h =
        bind (read_int dec) (\<lambda>size.
        bind (put self (NewArray ncd size (PBool False) [])) (\<lambda>_.
        bind (NewArray_contents dec (PBool False) (nat size) []) (\<lambda>contents.
        put self (NewArray ncd size (PBool False) contents))))
          (h1\<lparr>heap := (heap h1)[self := NewArray ncd 0 (PBool False) []],
              references := references h1 @ [PObj self]\<rparr>)"
    unfolding eq
    by (auto simp: NewArray_decode_def bind_apply gets_apply put_apply add_reference_apply
          Let_def)
next
  show "NewArray_contents dec (PBool False) 0 contents = return contents"
    by simp
next
  show "NewArray_contents dec (PBool False) (Suc i) contents =
       bind dec (\<lambda>content.
       bind (gets heap) (\<lambda>H.
       NewArray_contents dec (PBool False) i (contents @ [unref H content])))"
    by (simp add: read_primitive_def)
qed

theorem array_descriptor_check_witness:
  "decode_object 2 (array_state 5 [] [Header 0xACED 5, NewArray PNone 0 (PStr []) []]) =
     Return (PObj 2) (array_state 22 [PObj 2] (array_store (NewArray PNone 0 (PStr []) []) []))
   \<and> pyclass_of (array_store (NewArray PNone 0 (PStr []) []) []) (PObj 2)
       \<in> {C_NewClassDesc, C_Reference}
   \<and> PObj 2 = unref (array_store (NewArray PNone 0 (PStr []) []) []) (PObj 2)
   \<and> deref (array_store (NewArray PNone 0 (PStr []) []) []) (PObj 2) =
       Some (NewClassDesc ''X'' 0 2 [] (PObj 5))
   \<and> hd ''X'' \<noteq> CHR ''[''
   \<and> NewArray_decode (decode_object 2) 1
       (array_state 5 [] [Header 0xACED 5, NewArray PNone 0 (PStr []) []]) =
       Return ()
         (array_state 31 [PObj 2, PObj 1, PObj 7]
            (array_store (NewArray (PObj 2) 2 (PBool False) [PObj 7, PObj 8])
               [String ''A'', Null]))
   \<and> on_stream False ([0xAC, 0xED, 0x00, 0x05] @ array_stream) (read_objects 3 1) =
       Return [PObj 1]
         (array_state 31 [PObj 2, PObj 1, PObj 7]
            (array_store (NewArray (PObj 2) 2 (PBool False) [PObj 7, PObj 8])
               [String ''A'', Null]))
   \<and> decode_object 1
       ((opened False [0x75, 0x70])
          \<lparr>io := \<lparr>buf = [0xAC, 0xED, 0x00, 0x05, 0x75, 0x70], cur = 5\<rparr>, pos := 5,
           heap := [Header 0xACED 5, NewArray PNone 0 (PStr []) []]\<rparr>) =
       Return (PObj 2)
         ((opened False [0x75, 0x70])
            \<lparr>io := \<lparr>buf = [0xAC, 0xED, 0x00, 0x05, 0x75, 0x70], cur = 6\<rparr>, pos := 6,
             heap := [Header 0xACED 5, NewArray PNone 0 (PStr []) [], Null]\<rparr>)
   \<and> pyclass_of [Header 0xACED 5, NewArray PNone 0 (PStr []) [], Null] (PObj 2)
       \<notin> {C_NewClassDesc, C_Reference}
   \<and> NewArray_decode (decode_object 1) 1
       ((opened False [0x75, 0x70])
          \<lparr>io := \<lparr>buf = [0xAC, 0xED, 0x00, 0x05, 0x75, 0x70], cur = 5\<rparr>, pos := 5,
           heap := [Header 0xACED 5, NewArray PNone 0 (PStr []) []]\<rparr>) =
       Raise (Exception ''Invalid type for class desc'')
         ((opened False [0x75, 0x70])
            \<lparr>io := \<lparr>buf = [0xAC, 0xED, 0x00, 0x05, 0x75, 0x70], cur = 6\<rparr>, pos := 6,
             heap := [Header 0xACED 5, NewArray PNone 0 (PStr []) [], Null]\<rparr>)"
proof -
  let ?a0 = "NewArray PNone 0 (PStr []) []"
  let ?h = "array_state 5 [] [Header 0xACED 5, ?a0]"
  let ?h1 = "array_state 22 [PObj 2] (array_store ?a0 [])"
  let ?fin = "array_state 31 [PObj 2, PObj 1, PObj 7]
            (array_store (NewArray (PObj 2) 2 (PBool False) [PObj 7, PObj 8])
               [String ''A'', Null])"
  let ?g = "(opened False [0x75, 0x70])
          \<lparr>io := \<lparr>buf = [0xAC, 0xED, 0x00, 0x05, 0x75, 0x70], cur = 5\<rparr>, pos := 5,
           heap := [Header 0xACED 5, ?a0]\<rparr>"
  let ?g1 = "(opened False [0x75, 0x70])
            \<lparr>io := \<lparr>buf = [0xAC, 0xED, 0x00, 0x05, 0x75, 0x70], cur = 6\<rparr>, pos := 6,
             heap := [Header 0xACED 5, ?a0, Null]\<rparr>"
  note defs = exec dec_defs tc_defs array_stream_def array_state_def array_store_def
  have run: "decode_object 2 ?h = Return (PObj 2) ?h1"
    by (simp add: defs)
  have cls: "pyclass_of (heap ?h1) (PObj 2) \<in> {C_NewClassDesc, C_Reference}"
    by (simp add: pyclass_of_def deref_def array_state_def array_store_def)
  have nr: "PObj 2 = unref (heap ?h1) (PObj 2)"
    by (simp add: unref_def deref_def array_state_def array_store_def)
  have dr: "deref (heap ?h1) (PObj 2) = Some (NewClassDesc ''X'' 0 2 [] (PObj 5))"
    by (simp add: deref_def array_state_def array_store_def)
  have hd: "hd ''X'' \<noteq> CHR ''[''"
    by simp
  from dr hd have nm: "\<forall>cn uid fl fs sc.
      deref (heap ?h1) (PObj 2) = Some (NewClassDesc cn uid fl fs sc) \<longrightarrow>
      cn = [] \<or> hd cn \<noteq> CHR ''[''"
    by simp
  from array_descriptor_check [where dec = "decode_object 2" and h = ?h and cd = "PObj 2"
      and ?h1.0 = ?h1 and self = 1 and ncd = "PObj 2"] run cls nr nm
  have "NewArray_decode (decode_object 2) 1 ?h =
        bind (read_int (decode_object 2)) (\<lambda>size.
        bind (put 1 (NewArray (PObj 2) size (PBool False) [])) (\<lambda>_.
        bind (NewArray_contents (decode_object 2) (PBool False) (nat size) []) (\<lambda>contents.
        put 1 (NewArray (PObj 2) size (PBool False) contents))))
          (?h1\<lparr>heap := (heap ?h1)[1 := NewArray (PObj 2) 0 (PBool False) []],
               references := references ?h1 @ [PObj 1]\<rparr>)"
    by blast
  also have "\<dots> = Return () ?fin"
    by (simp add: defs)
  finally have dec: "NewArray_decode (decode_object 2) 1 ?h = Return () ?fin" .
  have whole: "on_stream False ([0xAC, 0xED, 0x00, 0x05] @ array_stream) (read_objects 3 1) =
      Return [PObj 1] ?fin"
    by (simp add: defs)
  have run0: "decode_object 1 ?g = Return (PObj 2) ?g1"
    by (simp add: exec dec_defs tc_defs)
  have cls0: "pyclass_of (heap ?g1) (PObj 2) \<notin> {C_NewClassDesc, C_Reference}"
    by (simp add: pyclass_of_def deref_def)
  from array_descriptor_check [where dec = "decode_object 1" and h = ?g and cd = "PObj 2"
      and ?h1.0 = ?g1 and self = 1] run0 cls0
  have rs: "NewArray_decode (decode_object 1) 1 ?g =
      Raise (Exception ''Invalid type for class desc'') ?g1"
    by blast
  from run cls nr dr hd dec whole run0 cls0 rs show ?thesis
    by (simp add: array_state_def)
qed

section \<open>The cursor of block mode\<close>

text \<open>
  C10. A \<^verbatim>\<open>read_struct\<close> in block mode whose cursor has reached the frame end adopts one new
  frame, and when that frame holds fewer bytes than the format needs, the call is to fail
  with an end-of-stream error; \<^verbatim>\<open>read_struct\<close> has the test for it
  (\<^verbatim>\<open>if len(ba) != ln: raise EOFError\<close>). On a frame of size 0 the call does not get that
  far: \<^verbatim>\<open>BlockData.decode\<close> returns before it creates the frame's \<^verbatim>\<open>BytesIO\<close>, and
  \<^verbatim>\<open>self.block_data.io.read(ln)\<close> on the \<^verbatim>\<open>None\<close> left there raises \<^verbatim>\<open>AttributeError\<close>.
  A frame of one byte, read with a format of two bytes, raises \<^verbatim>\<open>EOFError\<close> as it should.
\<close>

theorem read_struct_empty_frame:
  "on_stream False [0xAC, 0xED, 0x00, 0x05, 0x77, 0x00]
     (bind (set_block_data_mode True) (\<lambda>_. read_struct (decode_object 1) [F_B])) =
     Raise AttributeError
       \<lparr>io = \<lparr>buf = [0xAC, 0xED, 0x00, 0x05, 0x77, 0x00], cur = 6\<rparr>, pos = 0, endp = 0,
        block_mode = True, block_data = PObj 1, references = [], header = PObj 0,
        heap = [Header 0xACED 5, BlockData 0 [] None], struct_complex = False\<rparr>
   \<and> on_stream False [0xAC, 0xED, 0x00, 0x05, 0x77, 0x01, 0x07]
       (bind (set_block_data_mode True) (\<lambda>_. read_struct (decode_object 1) [F_H])) =
       Raise EOFError
         \<lparr>io = \<lparr>buf = [0xAC, 0xED, 0x00, 0x05, 0x77, 0x01, 0x07], cur = 7\<rparr>, pos = 0,
          endp = 1, block_mode = True, block_data = PObj 1, references = [], header = PObj 0,
          heap = [Header 0xACED 5, BlockData 1 [0x07] (Some \<lparr>buf = [0x07], cur = 1\<rparr>)],
          struct_complex = False\<rparr>"
  by (simp add: exec dec_defs tc_defs)

text \<open>
  The same for every handler. A read at the frame end runs one refill and then reads from
  the frame that the refill adopted: a frame without \<^verbatim>\<open>BytesIO\<close> raises \<^verbatim>\<open>AttributeError\<close>
  in the state the refill left, and a frame whose \<^verbatim>\<open>BytesIO\<close> has fewer bytes left than the
  format needs raises \<^verbatim>\<open>EOFError\<close>, the stream being where the refill left it: there is no
  second refill.
\<close>

lemma refill_result:
  assumes "refill dec h = Return u h1"
  shows "block_mode h1 \<and> pos h1 = 0 \<and>
         (\<exists>sz c bio. (deref (heap h1) (block_data h1) = Some (BlockData sz c bio)
                      \<or> deref (heap h1) (block_data h1) = Some (BlockDataLong sz c bio))
                     \<and> endp h1 = sz)"
  using assms
  by (auto simp: refill_def bind_def gets_def raise_def modify_def set_block_data_mode_def
           split: if_splits result.splits option.splits element.splits)

lemma block_read_cases:
  assumes "block_read ln h = Return ba h'"
  obtains a sz c b where "block_data h = PObj a" "a < length (heap h)"
    "ba = take ln (drop (cur b) (buf b))"
    "(heap h ! a = BlockData sz c (Some b)
        \<and> h' = h\<lparr>heap := (heap h)[a := BlockData sz c (Some (b\<lparr>cur := cur b + length ba\<rparr>))]\<rparr>)
     \<or> (heap h ! a = BlockDataLong sz c (Some b)
        \<and> h' = h\<lparr>heap := (heap h)[a := BlockDataLong sz c (Some (b\<lparr>cur := cur b + length ba\<rparr>))]\<rparr>)"
  using assms
  by (auto simp: block_read_def deref_def bio_read_def Let_def
           split: pyval.splits if_splits option.splits element.splits)

lemma take_drop_full:
  assumes "length (take ln (drop c xs)) = ln"
  shows "ln = 0 \<or> c + ln \<le> length xs"
  using assms by (auto simp: min_def split: if_splits)

lemma block_read_cursor:
  assumes wf: "wf_state h" and bm: "block_mode h"
    and at: "(pos h < endp h \<and>
        (case deref (heap h) (block_data h) of
           Some (BlockData sz c (Some b)) \<Rightarrow> endp h = sz \<and> pos h \<le> int (cur b)
         | Some (BlockDataLong sz c (Some b)) \<Rightarrow> endp h = sz \<and> pos h \<le> int (cur b)
         | _ \<Rightarrow> True))
      \<or> (pos h = 0 \<and>
        (\<exists>sz c bio. (deref (heap h) (block_data h) = Some (BlockData sz c bio)
                      \<or> deref (heap h) (block_data h) = Some (BlockDataLong sz c bio))
                     \<and> endp h = sz))"
    and rd: "block_read ln h = Return ba h1" and full: "length ba = ln"
  shows "cursor_ok (h1\<lparr>pos := pos h1 + int ln\<rparr>) \<and> block_mode h1
         \<and> pos h1 + int ln \<le> endp h1"
proof -
  from rd obtain a sz c b where bd: "block_data h = PObj a" and a: "a < length (heap h)"
    and ba: "ba = take ln (drop (cur b) (buf b))"
    and el: "(heap h ! a = BlockData sz c (Some b)
        \<and> h1 = h\<lparr>heap := (heap h)[a := BlockData sz c (Some (b\<lparr>cur := cur b + length ba\<rparr>))]\<rparr>)
     \<or> (heap h ! a = BlockDataLong sz c (Some b)
        \<and> h1 = h\<lparr>heap := (heap h)[a := BlockDataLong sz c (Some (b\<lparr>cur := cur b + length ba\<rparr>))]\<rparr>)"
    by (rule block_read_cases)
  from wf a have ok: "elem_ok (heap h) (heap h ! a)"
    by (simp add: wf_state_def list_all_length)
  with el have sz: "int (length (buf b)) = sz" by auto
  from el bd a have dr: "deref (heap h) (block_data h) = Some (BlockData sz c (Some b))
      \<or> deref (heap h) (block_data h) = Some (BlockDataLong sz c (Some b))"
    by (auto simp: deref_def)
  from full ba have room: "ln = 0 \<or> cur b + ln \<le> length (buf b)"
    using take_drop_full [of ln "cur b" "buf b"] by simp
  from at dr have e: "endp h = sz \<and> pos h \<le> int (cur b) \<and> pos h \<le> endp h"
    using sz by auto
  from el have bm1: "block_mode h1 = block_mode h" "pos h1 = pos h" "endp h1 = endp h"
    "block_data h1 = block_data h"
    by auto
  from el bd a full have dr1: "deref (heap h1) (block_data h1) =
        Some (BlockData sz c (Some (b\<lparr>cur := cur b + ln\<rparr>)))
      \<or> deref (heap h1) (block_data h1) = Some (BlockDataLong sz c (Some (b\<lparr>cur := cur b + ln\<rparr>)))"
    by (auto simp: deref_def)
  from room e sz have bound: "pos h + int ln \<le> endp h" by auto
  from dr1 bound e bm bm1 show ?thesis
    by (auto simp: cursor_ok_def)
qed

lemma read_struct_at_end:
  assumes "block_mode h" and "pos h = endp h"
    and "calcsize (struct_complex h) unpack = Some ln"
    and "refill dec h = Return () h1"
  shows "read_struct dec unpack h =
      bind (block_read ln) (\<lambda>ba.
        if length ba \<noteq> ln then raise EOFError
        else bind (modify (\<lambda>h. h\<lparr>pos := pos h + int ln\<rparr>))
               (\<lambda>_. return (struct_unpack (struct_complex h) unpack ba))) h1"
  using assms refill_result [of dec h "()" h1]
  by (simp add: read_struct_def bind_apply gets_apply)

lemma read_struct_no_reader:
  assumes "block_mode h" and "pos h = endp h"
    and "calcsize (struct_complex h) unpack = Some ln"
    and "refill dec h = Return () h1"
    and "deref (heap h1) (block_data h1) = Some (BlockData sz c None)
         \<or> deref (heap h1) (block_data h1) = Some (BlockDataLong sz c None)"
  shows "read_struct dec unpack h = Raise AttributeError h1"
  unfolding read_struct_at_end [OF assms(1-4)] using assms(5)
  by (auto simp: bind_apply block_read_def deref_def split: pyval.splits if_splits)

lemma read_struct_short_frame:
  assumes "block_mode h" and "pos h = endp h"
    and "calcsize (struct_complex h) unpack = Some ln"
    and "refill dec h = Return () h1"
    and "deref (heap h1) (block_data h1) = Some (BlockData sz c (Some b))
         \<or> deref (heap h1) (block_data h1) = Some (BlockDataLong sz c (Some b))"
    and "length (buf b) - cur b < ln"
  shows "\<exists>h2. read_struct dec unpack h = Raise EOFError h2 \<and> io h2 = io h1
           \<and> block_data h2 = block_data h1 \<and> pos h2 = 0 \<and> endp h2 = endp h1
           \<and> block_mode h2"
  unfolding read_struct_at_end [OF assms(1-4)]
  using assms(5,6) refill_result [OF assms(4)]
  by (auto simp: bind_apply block_read_def raise_apply bio_read_def Let_def deref_def
           split: pyval.splits if_splits)

text \<open>
  In block mode \<open>pos \<le> end\<close> is kept by every read that returns, from a well-formed state
  whose cursor is sound.
\<close>

lemma read_struct_block_cursor:
  assumes wf: "wf_state h" and co: "cursor_ok h" and bm: "block_mode h"
    and run: "read_struct (decode_object n) unpack h = Return vs h'"
  shows "block_mode h' \<and> pos h' \<le> endp h' \<and> cursor_ok h' \<and> wf_state h'"
proof (intro conjI)
  have s0: "since 0 h h" using wf by (simp add: since_refl)
  from safeD [OF safe_read_struct [OF safe_decode_object]] s0 run have "since 0 h h'"
    by (rule hoareD)
  then have wf': "wf_state h'" by (rule since_wf)
  from run obtain ln where ln: "calcsize (struct_complex h) unpack = Some ln"
    by (auto simp: read_struct_def bind_apply gets_apply raise_apply split: option.splits)
  have X: "cursor_ok h' \<and> block_mode h' \<and> pos h' \<le> endp h'"
  proof (cases "pos h = endp h")
    case True
    with run ln bm obtain hm where rf: "refill (decode_object n) h = Return () hm"
      by (auto simp: read_struct_def bind_apply gets_apply split: result.splits)
    from safeD [OF safe_refill [OF safe_decode_object]] s0 rf have "since 0 h hm"
      by (rule hoareD)
    then have wfm: "wf_state hm" by (rule since_wf)
    note r = refill_result [OF rf]
    from r have bmm: "block_mode hm" by simp
    from run ln bm True rf bmm obtain ba h1 where
      rd: "block_read ln hm = Return ba h1" and full: "length ba = ln"
      and h': "h' = h1\<lparr>pos := pos h1 + int ln\<rparr>"
      by (auto simp: read_struct_def bind_apply gets_apply raise_apply modify_apply return_apply
               split: result.splits if_splits)
    from r have "(pos hm < endp hm \<and>
        (case deref (heap hm) (block_data hm) of
           Some (BlockData sz c (Some b)) \<Rightarrow> endp hm = sz \<and> pos hm \<le> int (cur b)
         | Some (BlockDataLong sz c (Some b)) \<Rightarrow> endp hm = sz \<and> pos hm \<le> int (cur b)
         | _ \<Rightarrow> True))
      \<or> (pos hm = 0 \<and>
        (\<exists>sz c bio. (deref (heap hm) (block_data hm) = Some (BlockData sz c bio)
                      \<or> deref (heap hm) (block_data hm) = Some (BlockDataLong sz c bio))
                     \<and> endp hm = sz))"
      by blast
    from block_read_cursor [OF wfm bmm this rd full] show ?thesis
      unfolding h' by simp
  next
    case False
    with co bm have lt: "pos h < endp h" by (simp add: cursor_ok_def)
    from run ln bm False obtain ba h1 where
      rd: "block_read ln h = Return ba h1" and full: "length ba = ln"
      and h': "h' = h1\<lparr>pos := pos h1 + int ln\<rparr>"
      by (auto simp: read_struct_def bind_apply gets_apply raise_apply modify_apply return_apply
               split: result.splits if_splits)
    from co bm lt have "(pos h < endp h \<and>
        (case deref (heap h) (block_data h) of
           Some (BlockData sz c (Some b)) \<Rightarrow> endp h = sz \<and> pos h \<le> int (cur b)
         | Some (BlockDataLong sz c (Some b)) \<Rightarrow> endp h = sz \<and> pos h \<le> int (cur b)
         | _ \<Rightarrow> True))
      \<or> (pos h = 0 \<and>
        (\<exists>sz c bio. (deref (heap h) (block_data h) = Some (BlockData sz c bio)
                      \<or> deref (heap h) (block_data h) = Some (BlockDataLong sz c bio))
                     \<and> endp h = sz))"
      by (simp add: cursor_ok_def)
    from block_read_cursor [OF wf bm this rd full] show ?thesis
      unfolding h' by simp
  qed
  from X show "block_mode h'" by simp
  from X show "pos h' \<le> endp h'" by simp
  from X show "cursor_ok h'" by simp
  from wf' show "wf_state h'" .
qed

section \<open>Objects and their class data\<close>



lemma same_descs_refl: "same_descs H H"
  by (simp add: same_descs_def)





















end
